theory Spec2Isabelle
  imports Main "HOL-Library.Word"
begin

section \<open>Ruby values, exceptions and the observable world\<close>

text \<open>
  The binding marshals between Ruby objects (\<^verbatim>\<open>VALUE\<close>) and libvirt's C API.
  Only the objects the modelled functions build or inspect are represented.
  \<open>RConnect p\<close> is \<^verbatim>\<open>connect_new(p)\<close>, \<open>RDomain d c\<close> is \<^verbatim>\<open>domain_new(d, c)\<close>
  (the wrapped pointer and the connection object it remembers), \<open>RSnapshot p dm\<close> is
  \<^verbatim>\<open>domain_snapshot_new(p, dm)\<close> (the wrapped pointer and the domain object it
  remembers), \<open>RClass n\<close> is the class object that \<^verbatim>\<open>rb_class_of\<close> returns.
\<close>

datatype rvalue =
    Qnil
  | RInt int
  | RStr string
  | RSym string
  | RProc nat
  | RArray "rvalue list"
  | RHash "(rvalue \<times> rvalue) list"
  | RConnect nat
  | RDomain nat rvalue
  | RSnapshot nat rvalue
  | RClass string

text \<open>
  Exceptions are values. \<open>RetrieveError f\<close> is
  \<^verbatim>\<open>create_error(e_RetrieveError, f, conn)\<close> and \<open>LibvirtError f\<close> is
  \<^verbatim>\<open>create_error(e_Error, f, conn)\<close>: both carry the name of the libvirt entry point
  that failed. \<open>TypeError\<close> and \<open>ArgError\<close> are \<^verbatim>\<open>rb_eTypeError\<close> and
  \<^verbatim>\<open>rb_eArgError\<close> with their message. \<open>RubyExc\<close> is any exception that a
  protected Ruby call or a user handler raised.
\<close>

datatype exc =
    RetrieveError string
  | LibvirtError string
  | TypeError string
  | ArgError string
  | RubyExc string

text \<open>
  What a caller of the binding can observe besides the returned value: the calls made
  into libvirt (entry point and, for a fetch, the buffer size that was passed; \<open>None\<close>
  for a call without destination buffer), heap allocation and release, the release of a
  string that libvirt allocated (by buffer index), and the invocation of a Ruby method
  (receiver, method name, positional arguments).
\<close>

datatype effect =
    Call string "int option"
  | Alloc int
  | Xfree
  | Free_str nat
  | Funcall rvalue string "rvalue list"

text \<open>
  The seven adapter functions of connect.c that libvirt calls back, and one entry of
  libvirt's callback table: the event id, the adapter, the opaque pointer (the Ruby
  array \<^verbatim>\<open>passthrough\<close>) and the domain filter (\<open>None\<close> for \<^verbatim>\<open>NULL\<close>).
\<close>

datatype adapter =
    Cb_lifecycle
  | Cb_reboot
  | Cb_rtc
  | Cb_watchdog
  | Cb_io_error
  | Cb_io_error_reason
  | Cb_graphics

record registration =
  reg_event :: int
  reg_cb :: adapter
  reg_opaque :: rvalue
  reg_dom :: "nat option"

record world =
  trace :: "effect list"
  regs :: "(int \<times> registration) list"
  next_id :: int

definition call :: "string \<Rightarrow> int option \<Rightarrow> world \<Rightarrow> world" where
  "call f n w = w\<lparr>trace := trace w @ [Call f n]\<rparr>"

definition emit :: "effect \<Rightarrow> world \<Rightarrow> world" where
  "emit e w = w\<lparr>trace := trace w @ [e]\<rparr>"

section \<open>Two-phase queries\<close>

text \<open>
  One query against the subsystem. \<open>probe\<close> is what the counting call returns;
  \<open>fetch n\<close> is what the listing call does when it is given a buffer of \<open>n\<close> slots:
  its return value and the elements it writes to the front of the buffer. The two are
  independent, since the subsystem may change between the calls. The buffers come from
  \<^verbatim>\<open>alloca\<close> and are not initialised: \<open>junk i\<close> is what slot \<open>i\<close> holds where
  the fetch wrote nothing. \<open>raises\<close> says which Ruby call made under
  \<^verbatim>\<open>rb_protect\<close> raises, if any.

  The receiver of a connection method is an open connection and the receiver of a
  domain method a live domain that holds one, and the optional flags argument is an
  integer, so \<^verbatim>\<open>connect_get\<close>, \<^verbatim>\<open>domain_get\<close> and \<^verbatim>\<open>NUM2UINT\<close> succeed
  there. The receiver of a snapshot method is a live snapshot, so
  \<^verbatim>\<open>domain_snapshot_get\<close> succeeds; what \<^verbatim>\<open>connect_get\<close> does with it is
  modelled below.
\<close>

text \<open>
  \<^verbatim>\<open>conn_attr\<close> and \<^verbatim>\<open>connect_get\<close>, connect.c lines 74-89: an object that is
  not a connection is replaced by its instance variable \<^verbatim>\<open>@connection\<close>, and what
  is then not a connection raises. \<^verbatim>\<open>rb_iv_get\<close> answers nil for a variable that was
  never set: a Domain holds \<^verbatim>\<open>@connection\<close>, a Snapshot holds only
  \<^verbatim>\<open>@domain\<close> (\<^verbatim>\<open>domain_snapshot_new\<close>, domain.c lines 1369-1375). The
  connection itself is open, so the test of \<^verbatim>\<open>generic_get\<close> (common.h) passes.
\<close>

fun is_connect :: "rvalue \<Rightarrow> bool" where
  "is_connect (RConnect p) = True"
| "is_connect v = False"

fun rb_iv_get :: "rvalue \<Rightarrow> string \<Rightarrow> rvalue" where
  "rb_iv_get (RDomain d c) name = (if name = ''@connection'' then c else Qnil)"
| "rb_iv_get (RSnapshot p dm) name = (if name = ''@domain'' then dm else Qnil)"
| "rb_iv_get v name = Qnil"

definition conn_attr :: "rvalue \<Rightarrow> exc + rvalue" where
  "conn_attr s =
     (let s1 = (if \<not> is_connect s then rb_iv_get s ''@connection'' else s)
      in if \<not> is_connect s1 then Inl (ArgError ''Expected Connection object'') else Inr s1)"

definition connect_get :: "rvalue \<Rightarrow> exc + rvalue" where
  "connect_get s = conn_attr s"

datatype site = Ary_new | Ary_push nat | Str_new nat | Ary_store nat

record 'a listing =
  probe :: int
  fetch :: "int \<Rightarrow> int \<times> 'a list"
  junk :: "nat \<Rightarrow> 'a"
  raises :: "site \<Rightarrow> exc option"

definition slot :: "'a listing \<Rightarrow> 'a list \<Rightarrow> nat \<Rightarrow> 'a" where
  "slot q written i = (if i < length written then written ! i else junk q i)"

text \<open>
  Modelled from the spec: \<^verbatim>\<open>gen_list\<close> of common.c is not among the sources. Its call
  sites pass a count and the buffer of C strings and return its result as the Ruby
  array of names (``The list function must return an array of strings, which is
  returned as a Ruby array''), so it is the array of the first \<open>num\<close> buffer slots.
\<close>

definition gen_list :: "int \<Rightarrow> (nat \<Rightarrow> string) \<Rightarrow> rvalue" where
  "gen_list num names = RArray (map (\<lambda>i. RStr (names i)) [0..<nat num])"

text \<open>
  The macro \<^verbatim>\<open>gen_conn_list_names(s, objs)\<close>, connect.c lines 36-52. The macro
  \<^verbatim>\<open>_E(cond, excep)\<close> of common.h raises \<open>excep\<close> when \<open>cond\<close> holds.
\<close>

definition gen_conn_list_names ::
  "string \<Rightarrow> string listing \<Rightarrow> world \<Rightarrow> (exc + rvalue) \<times> world" where
  "gen_conn_list_names objs q w =
     (let num = probe q;
          w1 = call (''virConnectNumOf'' @ objs) None w
      in if num < 0 then (Inl (RetrieveError (''virConnectNumOf'' @ objs)), w1)
         else if num = 0 then (Inr (RArray []), w1)
         else
           let (r, written) = fetch q num;
               w2 = call (''virConnectList'' @ objs) (Some num) w1
           in if r < 0 then (Inl (RetrieveError (''virConnectList'' @ objs)), w2)
              else (Inr (gen_list num (slot q written)), w2))"

text \<open>\<^verbatim>\<open>libvirt_conn_list_nodedevices\<close>, connect.c lines 1517-1550.\<close>

definition libvirt_conn_list_nodedevices ::
  "string listing \<Rightarrow> world \<Rightarrow> (exc + rvalue) \<times> world" where
  "libvirt_conn_list_nodedevices q w =
     (let num = probe q;
          w1 = call ''virNodeNumOfDevices'' None w
      in if num < 0 then (Inl (RetrieveError ''virNodeNumOfDevices''), w1)
         else if num = 0 then (Inr (RArray []), w1)
         else
           let (r, written) = fetch q num;
               w2 = call ''virNodeListDevices'' (Some num) w1
           in if r < 0 then (Inl (RetrieveError ''virNodeListDevices''), w2)
              else (Inr (gen_list num (slot q written)), w2))"

text \<open>\<^verbatim>\<open>libvirt_dom_list_snapshots\<close>, domain.c lines 1433-1465.\<close>

definition libvirt_dom_list_snapshots ::
  "string listing \<Rightarrow> world \<Rightarrow> (exc + rvalue) \<times> world" where
  "libvirt_dom_list_snapshots q w =
     (let num = probe q;
          w1 = call ''virDomainSnapshotNum'' None w
      in if num < 0 then (Inl (RetrieveError ''virDomainSnapshotNum''), w1)
         else if num = 0 then (Inr (RArray []), w1)
         else
           let (r, written) = fetch q num;
               w2 = call ''virDomainSnapshotListNames'' (Some num) w1
           in if r < 0 then (Inl (RetrieveError ''virDomainSnapshotListNames''), w2)
              else (Inr (gen_list num (slot q written)), w2))"

text \<open>
  \<^verbatim>\<open>libvirt_conn_list_domains\<close>, connect.c lines 990-1025. The loop
  \<^verbatim>\<open>for (i = 0; i < num; i++)\<close> pushes \<^verbatim>\<open>INT2NUM(ids[i])\<close> under
  \<^verbatim>\<open>rb_protect\<close>; \<open>push_ids\<close> is that loop over the indices still to visit.
\<close>

fun push_ids ::
  "(site \<Rightarrow> exc option) \<Rightarrow> (nat \<Rightarrow> int) \<Rightarrow> nat list \<Rightarrow> rvalue list \<Rightarrow> exc + rvalue" where
  "push_ids rs ids [] result = Inr (RArray result)"
| "push_ids rs ids (i # rest) result =
     (case rs (Ary_push i) of
        Some e \<Rightarrow> Inl e
      | None \<Rightarrow> push_ids rs ids rest (result @ [RInt (ids i)]))"

definition libvirt_conn_list_domains ::
  "int listing \<Rightarrow> world \<Rightarrow> (exc + rvalue) \<times> world" where
  "libvirt_conn_list_domains q w =
     (let num = probe q;
          w1 = call ''virConnectNumOfDomains'' None w
      in if num < 0 then (Inl (RetrieveError ''virConnectNumOfDomains''), w1)
         else if num = 0 then (Inr (RArray []), w1)
         else
           let (r, written) = fetch q num;
               w2 = call ''virConnectListDomains'' (Some num) w1
           in if r < 0 then (Inl (RetrieveError ''virConnectListDomains''), w2)
              else case raises q Ary_new of
                     Some e \<Rightarrow> (Inl e, w2)
                   | None \<Rightarrow> (push_ids (raises q) (slot q written) [0..<nat num] [], w2))"

text \<open>
  \<^verbatim>\<open>libvirt_dom_snapshot_list_children_names\<close>, domain.c lines 2381-2440, with
  its receiver \<open>d\<close>. There is no test of \<^verbatim>\<open>num_children\<close> against zero before the
  listing call. On both error exits the exception to raise is built with
  \<^verbatim>\<open>connect_get(d)\<close>, which is evaluated first and itself raises when \<open>d\<close> leads
  to no connection. The loop runs to the count \<^verbatim>\<open>ret\<close> of the listing call,
  converts and stores each name under \<^verbatim>\<open>rb_protect\<close> and frees it; on an exception
  the label \<^verbatim>\<open>error\<close> frees \<^verbatim>\<open>children[j]\<close> for \<open>j\<close> from \<open>i\<close> up to \<open>ret\<close>
  and re-raises. \<^verbatim>\<open>rb_ary_store\<close> at an index equal to the length appends.
\<close>

definition free_from :: "nat \<Rightarrow> nat \<Rightarrow> world \<Rightarrow> world" where
  "free_from i n w = w\<lparr>trace := trace w @ map Free_str [i..<n]\<rparr>"

fun store_children ::
  "(site \<Rightarrow> exc option) \<Rightarrow> (nat \<Rightarrow> string) \<Rightarrow> nat \<Rightarrow> nat list \<Rightarrow> rvalue list \<Rightarrow> world
     \<Rightarrow> (exc + rvalue) \<times> world" where
  "store_children rs children n [] result w = (Inr (RArray result), w)"
| "store_children rs children n (i # rest) result w =
     (case rs (Str_new i) of
        Some e \<Rightarrow> (Inl e, free_from i n w)
      | None \<Rightarrow>
          (case rs (Ary_store i) of
             Some e \<Rightarrow> (Inl e, free_from i n w)
           | None \<Rightarrow>
               store_children rs children n rest (result @ [RStr (children i)])
                 (emit (Free_str i) w)))"

definition libvirt_dom_snapshot_list_children_names ::
  "rvalue \<Rightarrow> string listing \<Rightarrow> world \<Rightarrow> (exc + rvalue) \<times> world" where
  "libvirt_dom_snapshot_list_children_names d q w =
     (let num_children = probe q;
          w1 = call ''virDomainSnapshotNumChildren'' None w
      in if num_children < 0
         then (case connect_get d of
                 Inl e \<Rightarrow> (Inl e, w1)
               | Inr conn \<Rightarrow> (Inl (RetrieveError ''virDomainSnapshotNumChildren''), w1))
         else
           let (ret, written) = fetch q num_children;
               w2 = call ''virDomainSnapshotListChildrenNames'' (Some num_children) w1
           in if ret < 0
              then (case connect_get d of
                      Inl e \<Rightarrow> (Inl e, w2)
                    | Inr conn \<Rightarrow>
                        (Inl (RetrieveError ''virDomainSnapshotListChildrenNames''), w2))
              else store_children (raises q) (slot q written) (nat ret) [0..<nat ret] [] w2)"

section \<open>Node statistics\<close>

text \<open>
  \<^verbatim>\<open>internal_get_stats\<close>, connect.c lines 2075-2142, receives three function
  pointers. \<open>get_stats given n\<close> is the call with a buffer (\<open>given\<close>) or with
  \<^verbatim>\<open>NULL\<close>, and \<open>n\<close> the value of \<^verbatim>\<open>*nparams\<close> on entry: it answers the
  error name (\<open>None\<close> for \<^verbatim>\<open>NULL\<close>), the value of \<^verbatim>\<open>*nparams\<close> on return and the
  entries written to the buffer. \<open>alloc_stats n\<close> is the exception the allocation
  raises, if any. \<open>hash_set params i result\<close> is the body run under
  \<^verbatim>\<open>rb_protect\<close> for entry \<open>i\<close>: the hash extended, or its exception.
  \<open>heap_junk\<close> is the content of the buffer where nothing was written.
  The arguments \<^verbatim>\<open>intparam\<close> and \<^verbatim>\<open>flags\<close> are integers or absent.
\<close>

record 'p stats_ops =
  get_stats :: "bool \<Rightarrow> int \<Rightarrow> string option \<times> int \<times> 'p list"
  alloc_stats :: "int \<Rightarrow> exc option"
  hash_set :: "(nat \<Rightarrow> 'p) \<Rightarrow> nat \<Rightarrow> rvalue \<Rightarrow> exc + rvalue"
  heap_junk :: "nat \<Rightarrow> 'p"

definition entry :: "'p stats_ops \<Rightarrow> 'p list \<Rightarrow> nat \<Rightarrow> 'p" where
  "entry ops written i = (if i < length written then written ! i else heap_junk ops i)"

fun set_stats ::
  "((nat \<Rightarrow> 'p) \<Rightarrow> nat \<Rightarrow> rvalue \<Rightarrow> exc + rvalue) \<Rightarrow> (nat \<Rightarrow> 'p) \<Rightarrow> nat list \<Rightarrow> rvalue
     \<Rightarrow> exc + rvalue" where
  "set_stats hs params [] result = Inr result"
| "set_stats hs params (i # rest) result =
     (case hs params i result of
        Inl e \<Rightarrow> Inl e
      | Inr result' \<Rightarrow> set_stats hs params rest result')"

definition internal_get_stats :: "'p stats_ops \<Rightarrow> world \<Rightarrow> (exc + rvalue) \<times> world" where
  "internal_get_stats ops w =
     (let (errname, nparams, unused) = get_stats ops False 0;
          w1 = call ''get_stats'' None w
      in (case errname of
            Some f \<Rightarrow> (Inl (RetrieveError f), w1)
          | None \<Rightarrow>
              (if nparams = 0 then (Inr (RHash []), w1)
               else
                 (case alloc_stats ops nparams of
                    Some e \<Rightarrow> (Inl e, w1)
                  | None \<Rightarrow>
                      (let w2 = emit (Alloc nparams) w1;
                           (errname2, nparams2, written) = get_stats ops True nparams;
                           w3 = call ''get_stats'' (Some nparams) w2
                       in (case errname2 of
                             Some f \<Rightarrow> (Inl (RetrieveError f), emit Xfree w3)
                           | None \<Rightarrow>
                               (case set_stats (hash_set ops) (entry ops written)
                                       [0..<nat nparams2] (RHash []) of
                                  Inl e \<Rightarrow> (Inl e, emit Xfree w3)
                                | Inr result \<Rightarrow> (Inr result, emit Xfree w3))))))))"

text \<open>
  The CPU instance, connect.c lines 2146-2183. \<open>stat_field\<close> and \<open>stat_val\<close> are the
  members \<^verbatim>\<open>field\<close> and \<^verbatim>\<open>value\<close> of \<^verbatim>\<open>virNodeCPUStats\<close>;
  \<^verbatim>\<open>rb_hash_aset\<close> replaces the value of a key that is present and appends otherwise.
  \<open>vir\<close> is \<^verbatim>\<open>virNodeGetCPUStats\<close>: return value, \<^verbatim>\<open>*nparams\<close> on return, entries.
\<close>

record node_stat =
  stat_field :: string
  stat_val :: nat

fun aset :: "(rvalue \<times> rvalue) list \<Rightarrow> rvalue \<Rightarrow> rvalue \<Rightarrow> (rvalue \<times> rvalue) list" where
  "aset [] k v = [(k, v)]"
| "aset ((k', v') # kvs) k v = (if k' = k then (k, v) # kvs else (k', v') # aset kvs k v)"

fun rb_hash_aset :: "rvalue \<Rightarrow> rvalue \<Rightarrow> rvalue \<Rightarrow> rvalue" where
  "rb_hash_aset (RHash kvs) k v = RHash (aset kvs k v)"
| "rb_hash_aset h k v = h"

definition cpu_hash_set :: "(nat \<Rightarrow> node_stat) \<Rightarrow> nat \<Rightarrow> rvalue \<Rightarrow> exc + rvalue" where
  "cpu_hash_set params i result =
     Inr (rb_hash_aset result (RStr (stat_field (params i))) (RInt (int (stat_val (params i)))))"

definition cpu_get_stats ::
  "(bool \<Rightarrow> int \<Rightarrow> int \<times> int \<times> node_stat list) \<Rightarrow> bool \<Rightarrow> int
     \<Rightarrow> string option \<times> int \<times> node_stat list" where
  "cpu_get_stats vir given n =
     (let (r, n', written) = vir given n
      in if r < 0 then (Some ''virNodeGetCPUStats'', n', written) else (None, n', written))"

definition libvirt_conn_node_cpu_stats ::
  "(bool \<Rightarrow> int \<Rightarrow> int \<times> int \<times> node_stat list) \<Rightarrow> (int \<Rightarrow> exc option) \<Rightarrow> (nat \<Rightarrow> node_stat)
     \<Rightarrow> world \<Rightarrow> (exc + rvalue) \<times> world" where
  "libvirt_conn_node_cpu_stats vir cpu_alloc_stats garbage w =
     internal_get_stats
       \<lparr>get_stats = cpu_get_stats vir, alloc_stats = cpu_alloc_stats,
        hash_set = cpu_hash_set, heap_junk = garbage\<rparr> w"

text \<open>
  The blocks that the binding allocated and has not released, read off a trace.
\<close>

fun live :: "effect list \<Rightarrow> int" where
  "live [] = 0"
| "live (Alloc n # es) = live es + 1"
| "live (Xfree # es) = live es - 1"
| "live (e # es) = live es"

section \<open>Domain event callbacks\<close>

text \<open>
  \<open>handler recv mid args\<close> is what the Ruby method does when \<^verbatim>\<open>rb_funcall\<close>
  invokes it: \<open>None\<close> when it returns, \<open>Some e\<close> when it raises (a wrong number of
  parameters raises there too). The invocation itself is recorded in the trace.
\<close>

type_synonym handler = "rvalue \<Rightarrow> string \<Rightarrow> rvalue list \<Rightarrow> exc option"

fun rb_obj_classname :: "rvalue \<Rightarrow> string" where
  "rb_obj_classname Qnil = ''NilClass''"
| "rb_obj_classname (RInt n) = ''Integer''"
| "rb_obj_classname (RStr s) = ''String''"
| "rb_obj_classname (RSym s) = ''Symbol''"
| "rb_obj_classname (RProc p) = ''Proc''"
| "rb_obj_classname (RArray xs) = ''Array''"
| "rb_obj_classname (RHash kvs) = ''Hash''"
| "rb_obj_classname (RConnect p) = ''Libvirt::Connect''"
| "rb_obj_classname (RDomain d c) = ''Libvirt::Domain''"
| "rb_obj_classname (RSnapshot p dm) = ''Libvirt::Domain::Snapshot''"
| "rb_obj_classname (RClass n) = ''Class''"

definition rb_class_of :: "rvalue \<Rightarrow> rvalue" where
  "rb_class_of v = RClass (rb_obj_classname v)"

fun rb_to_id :: "rvalue \<Rightarrow> string" where
  "rb_to_id (RSym s) = s"
| "rb_to_id (RStr s) = s"
| "rb_to_id v = []"

definition rb_funcall ::
  "handler \<Rightarrow> rvalue \<Rightarrow> string \<Rightarrow> rvalue list \<Rightarrow> world \<Rightarrow> (exc + int) \<times> world" where
  "rb_funcall h recv mid args w =
     ((case h recv mid args of Some e \<Rightarrow> Inl e | None \<Rightarrow> Inr 0),
      emit (Funcall recv mid args) w)"

definition rb_ary_store :: "rvalue list \<Rightarrow> nat \<Rightarrow> rvalue \<Rightarrow> rvalue list" where
  "rb_ary_store xs i v =
     (if i < length xs then xs[i := v] else xs @ replicate (i - length xs) Qnil @ [v])"

text \<open>
  Every adapter starts with the same two tests of \<^verbatim>\<open>passthrough\<close> and ends with the
  same three-way branch on the class name of \<^verbatim>\<open>cb\<close>; only the word naming the
  event in the messages and the argument list differ. \<open>unpack\<close> is the first part
  (\<^verbatim>\<open>%ld\<close> in the message is left out), \<open>invoke\<close> the second; each returns 0 after
  the call.
\<close>

definition unpack :: "string \<Rightarrow> rvalue \<Rightarrow> exc + rvalue \<times> rvalue" where
  "unpack what passthrough =
     (case passthrough of
        RArray xs \<Rightarrow>
          if length xs \<noteq> 2 then Inl (ArgError ''wrong number of arguments (for 2)'')
          else Inr (xs ! 0, xs ! 1)
      | other \<Rightarrow>
          Inl (TypeError (''wrong domain event '' @ what @
                 '' callback argument type (expected Array)'')))"

definition invoke ::
  "handler \<Rightarrow> string \<Rightarrow> rvalue \<Rightarrow> rvalue list \<Rightarrow> world \<Rightarrow> (exc + int) \<times> world" where
  "invoke h what cb args w =
     (if rb_obj_classname cb = ''Symbol'' then rb_funcall h (rb_class_of cb) (rb_to_id cb) args w
      else if rb_obj_classname cb = ''Proc'' then rb_funcall h cb ''call'' args w
      else (Inl (TypeError (''wrong domain event '' @ what @
                   '' callback (expected Symbol or Proc)'')), w))"

definition connect_new :: "nat \<Rightarrow> rvalue" where
  "connect_new conn = RConnect conn"

definition domain_new :: "nat \<Rightarrow> rvalue \<Rightarrow> rvalue" where
  "domain_new d c = RDomain d c"

definition domain_event_lifecycle_callback ::
  "handler \<Rightarrow> nat \<Rightarrow> nat \<Rightarrow> int \<Rightarrow> int \<Rightarrow> rvalue \<Rightarrow> world \<Rightarrow> (exc + int) \<times> world" where
  "domain_event_lifecycle_callback h conn domain event detail passthrough w =
     (case unpack ''lifecycle'' passthrough of
        Inl e \<Rightarrow> (Inl e, w)
      | Inr (cb, cb_opaque) \<Rightarrow>
          let newc = connect_new conn
          in invoke h ''lifecycle'' cb
               [newc, domain_new domain newc, RInt event, RInt detail, cb_opaque] w)"

definition domain_event_reboot_callback ::
  "handler \<Rightarrow> nat \<Rightarrow> nat \<Rightarrow> rvalue \<Rightarrow> world \<Rightarrow> (exc + int) \<times> world" where
  "domain_event_reboot_callback h conn domain passthrough w =
     (case unpack ''reboot'' passthrough of
        Inl e \<Rightarrow> (Inl e, w)
      | Inr (cb, cb_opaque) \<Rightarrow>
          let newc = connect_new conn
          in invoke h ''reboot'' cb [newc, domain_new domain newc, cb_opaque] w)"

definition domain_event_rtc_callback ::
  "handler \<Rightarrow> nat \<Rightarrow> nat \<Rightarrow> int \<Rightarrow> rvalue \<Rightarrow> world \<Rightarrow> (exc + int) \<times> world" where
  "domain_event_rtc_callback h conn domain utc_offset passthrough w =
     (case unpack ''rtc'' passthrough of
        Inl e \<Rightarrow> (Inl e, w)
      | Inr (cb, cb_opaque) \<Rightarrow>
          let newc = connect_new conn
          in invoke h ''rtc'' cb [newc, domain_new domain newc, RInt utc_offset, cb_opaque] w)"

definition domain_event_watchdog_callback ::
  "handler \<Rightarrow> nat \<Rightarrow> nat \<Rightarrow> int \<Rightarrow> rvalue \<Rightarrow> world \<Rightarrow> (exc + int) \<times> world" where
  "domain_event_watchdog_callback h conn domain action passthrough w =
     (case unpack ''watchdog'' passthrough of
        Inl e \<Rightarrow> (Inl e, w)
      | Inr (cb, cb_opaque) \<Rightarrow>
          let newc = connect_new conn
          in invoke h ''watchdog'' cb [newc, domain_new domain newc, RInt action, cb_opaque] w)"

definition domain_event_io_error_callback ::
  "handler \<Rightarrow> nat \<Rightarrow> nat \<Rightarrow> string \<Rightarrow> string \<Rightarrow> int \<Rightarrow> rvalue \<Rightarrow> world
     \<Rightarrow> (exc + int) \<times> world" where
  "domain_event_io_error_callback h conn domain src_path dev_alias action passthrough w =
     (case unpack ''IO error'' passthrough of
        Inl e \<Rightarrow> (Inl e, w)
      | Inr (cb, cb_opaque) \<Rightarrow>
          let newc = connect_new conn
          in invoke h ''IO error'' cb
               [newc, domain_new domain newc, RStr src_path, RStr dev_alias, RInt action,
                cb_opaque] w)"

definition domain_event_io_error_reason_callback ::
  "handler \<Rightarrow> nat \<Rightarrow> nat \<Rightarrow> string \<Rightarrow> string \<Rightarrow> int \<Rightarrow> string \<Rightarrow> rvalue \<Rightarrow> world
     \<Rightarrow> (exc + int) \<times> world" where
  "domain_event_io_error_reason_callback h conn domain src_path dev_alias action reason
       passthrough w =
     (case unpack ''IO error reason'' passthrough of
        Inl e \<Rightarrow> (Inl e, w)
      | Inr (cb, cb_opaque) \<Rightarrow>
          let newc = connect_new conn
          in invoke h ''IO error reason'' cb
               [newc, domain_new domain newc, RStr src_path, RStr dev_alias, RInt action,
                RStr reason, cb_opaque] w)"

text \<open>
  The graphics adapter, connect.c lines 734-804. \<open>addr_family\<close>, \<open>addr_node\<close> and
  \<open>addr_service\<close> are the members of \<^verbatim>\<open>virDomainEventGraphicsAddress\<close>;
  \<open>nidentity\<close> and \<open>identities\<close> those of \<^verbatim>\<open>virDomainEventGraphicsSubject\<close>, the
  latter a pointer read at index \<open>i\<close>, each identity a pair of its \<^verbatim>\<open>type\<close> and
  \<^verbatim>\<open>name\<close>. The C strings of an event are not \<^verbatim>\<open>NULL\<close>.
\<close>

record address =
  addr_family :: int
  addr_node :: string
  addr_service :: string

record subject =
  nidentity :: int
  identities :: "nat \<Rightarrow> string \<times> string"

definition address_hash :: "address \<Rightarrow> rvalue" where
  "address_hash a =
     rb_hash_aset
       (rb_hash_aset
          (rb_hash_aset (RHash []) (RStr ''family'') (RInt (addr_family a)))
          (RStr ''node'') (RStr (addr_node a)))
       (RStr ''service'') (RStr (addr_service a))"

fun store_identities :: "(nat \<Rightarrow> string \<times> string) \<Rightarrow> nat list \<Rightarrow> rvalue list \<Rightarrow> rvalue list" where
  "store_identities ids [] subject_array = subject_array"
| "store_identities ids (i # rest) subject_array =
     (let pair = rb_ary_store (rb_ary_store [] 0 (RStr (fst (ids i)))) 1 (RStr (snd (ids i)))
      in store_identities ids rest (rb_ary_store subject_array i (RArray pair)))"

definition domain_event_graphics_callback ::
  "handler \<Rightarrow> nat \<Rightarrow> nat \<Rightarrow> int \<Rightarrow> address \<Rightarrow> address \<Rightarrow> string \<Rightarrow> subject \<Rightarrow> rvalue \<Rightarrow> world
     \<Rightarrow> (exc + int) \<times> world" where
  "domain_event_graphics_callback h conn domain phase local remote authScheme subj
       passthrough w =
     (case unpack ''graphics'' passthrough of
        Inl e \<Rightarrow> (Inl e, w)
      | Inr (cb, cb_opaque) \<Rightarrow>
          let local_hash = address_hash local;
              remote_hash = address_hash remote;
              subject_array = store_identities (identities subj) [0..<nat (nidentity subj)] [];
              newc = connect_new conn
          in invoke h ''graphics'' cb
               [newc, domain_new domain newc, RInt phase, local_hash, remote_hash,
                RStr authScheme, RArray subject_array, cb_opaque] w)"

section \<open>Registration and delivery\<close>

text \<open>
  The event ids are the values of \<^verbatim>\<open>virDomainEventID\<close> in libvirt.h.
\<close>

definition VIR_DOMAIN_EVENT_ID_LIFECYCLE :: int where
  "VIR_DOMAIN_EVENT_ID_LIFECYCLE = 0"

definition VIR_DOMAIN_EVENT_ID_REBOOT :: int where
  "VIR_DOMAIN_EVENT_ID_REBOOT = 1"

definition VIR_DOMAIN_EVENT_ID_RTC_CHANGE :: int where
  "VIR_DOMAIN_EVENT_ID_RTC_CHANGE = 2"

definition VIR_DOMAIN_EVENT_ID_WATCHDOG :: int where
  "VIR_DOMAIN_EVENT_ID_WATCHDOG = 3"

definition VIR_DOMAIN_EVENT_ID_IO_ERROR :: int where
  "VIR_DOMAIN_EVENT_ID_IO_ERROR = 4"

definition VIR_DOMAIN_EVENT_ID_GRAPHICS :: int where
  "VIR_DOMAIN_EVENT_ID_GRAPHICS = 5"

definition VIR_DOMAIN_EVENT_ID_IO_ERROR_REASON :: int where
  "VIR_DOMAIN_EVENT_ID_IO_ERROR_REASON = 6"

text \<open>
  Modelled from the spec: \<^verbatim>\<open>is_symbol_or_proc\<close> of common.c is not among the sources.
  A handler reference is a ``symbolic method reference or closure''; the message raised
  when the test fails reads ``expected Symbol or Proc''.
\<close>

definition is_symbol_or_proc :: "rvalue \<Rightarrow> bool" where
  "is_symbol_or_proc v \<longleftrightarrow> rb_obj_classname v = ''Symbol'' \<or> rb_obj_classname v = ''Proc''"

text \<open>
  Modelled from the spec: the subsystem's callback table (sections 4.3 and 6), which
  lives in libvirt. \<^verbatim>\<open>registerCallback\<close> answers a new registration id and puts the
  registration in state Registered; \<^verbatim>\<open>deregisterCallback\<close> moves a Registered id to
  Deregistered and answers 0, and answers -1 for an id that is not Registered.
\<close>

definition virConnectDomainEventRegisterAny ::
  "nat option \<Rightarrow> int \<Rightarrow> adapter \<Rightarrow> rvalue \<Rightarrow> world \<Rightarrow> int \<times> world" where
  "virConnectDomainEventRegisterAny domain eventID cb opaque w =
     (next_id w,
      w\<lparr>trace := trace w @ [Call ''virConnectDomainEventRegisterAny'' None],
        regs := regs w @
          [(next_id w, \<lparr>reg_event = eventID, reg_cb = cb, reg_opaque = opaque,
                        reg_dom = domain\<rparr>)],
        next_id := next_id w + 1\<rparr>)"

definition virConnectDomainEventDeregisterAny :: "int \<Rightarrow> world \<Rightarrow> int \<times> world" where
  "virConnectDomainEventDeregisterAny callbackID w =
     (let w1 = call ''virConnectDomainEventDeregisterAny'' None w
      in if callbackID \<in> fst ` set (regs w)
         then (0, w1\<lparr>regs := filter (\<lambda>(k, r). k \<noteq> callbackID) (regs w)\<rparr>)
         else (- 1, w1))"

text \<open>
  \<^verbatim>\<open>NUM2INT\<close> of ruby.h on the values represented here: an Integer that fits a C
  \<^verbatim>\<open>int\<close> is converted, a larger or smaller one raises Ruby's RangeError, and a
  value that is no number raises Ruby's TypeError. \<open>format_d\<close> is the conversion
  \<^verbatim>\<open>%d\<close> of \<^verbatim>\<open>rb_raise\<close>: the decimal digits, with a minus sign for a negative
  number.
\<close>

fun NUM2INT :: "rvalue \<Rightarrow> exc + int" where
  "NUM2INT (RInt n) =
     (if - 2147483648 \<le> n \<and> n \<le> 2147483647 then Inr n else Inl (RubyExc ''RangeError''))"
| "NUM2INT v = Inl (RubyExc ''TypeError'')"

function digits :: "nat \<Rightarrow> string" where
  "digits n =
     (if n < 10 then [''0123456789'' ! n]
      else digits (n div 10) @ [''0123456789'' ! (n mod 10)])"
  by pat_completeness auto
termination
  by (relation "measure id") auto

definition format_d :: "int \<Rightarrow> string" where
  "format_d n = (if n < 0 then CHR ''-'' # digits (nat (- n)) else digits (nat n))"

text \<open>
  \<^verbatim>\<open>libvirt_conn_domain_event_register_any\<close>, connect.c lines 831-888. The four
  arguments are those \<^verbatim>\<open>rb_scan_args\<close> delivers, nil for an optional one that was
  left out. The statements run in the order of the source: the test of \<open>cb\<close>, the
  conversion of \<open>dom_val\<close> unless it is nil, the conversion of \<open>eventID\<close> and the
  \<^verbatim>\<open>switch\<close> on it, the construction of \<^verbatim>\<open>passthrough\<close>, the call. The macro
  \<^verbatim>\<open>generic_get\<close> behind \<^verbatim>\<open>domain_get\<close> is in common.h, so \<open>domain_get\<close> is a
  parameter: the pointer a value wraps, or the exception raised for a value that is no
  usable Domain. \<open>internalcb_of\<close> is the \<^verbatim>\<open>switch\<close>, \<open>None\<close> its
  \<^verbatim>\<open>default\<close> branch. The macro \<^verbatim>\<open>gen_call_int\<close> of common.h is modelled from
  the spec (\<^verbatim>\<open>registrationId | Error\<close>): a negative return value is raised as an
  error, any other is returned as the handle.
\<close>

definition internalcb_of :: "int \<Rightarrow> adapter option" where
  "internalcb_of eventID =
     (if eventID = VIR_DOMAIN_EVENT_ID_LIFECYCLE then Some Cb_lifecycle
      else if eventID = VIR_DOMAIN_EVENT_ID_REBOOT then Some Cb_reboot
      else if eventID = VIR_DOMAIN_EVENT_ID_RTC_CHANGE then Some Cb_rtc
      else if eventID = VIR_DOMAIN_EVENT_ID_WATCHDOG then Some Cb_watchdog
      else if eventID = VIR_DOMAIN_EVENT_ID_IO_ERROR then Some Cb_io_error
      else if eventID = VIR_DOMAIN_EVENT_ID_IO_ERROR_REASON then Some Cb_io_error_reason
      else if eventID = VIR_DOMAIN_EVENT_ID_GRAPHICS then Some Cb_graphics
      else None)"

definition libvirt_conn_domain_event_register_any ::
  "(rvalue \<Rightarrow> exc + nat) \<Rightarrow> rvalue \<Rightarrow> rvalue \<Rightarrow> rvalue \<Rightarrow> rvalue \<Rightarrow> world
     \<Rightarrow> (exc + rvalue) \<times> world" where
  "libvirt_conn_domain_event_register_any domain_get eventID cb dom_val opaque w =
     (if \<not> is_symbol_or_proc cb
      then (Inl (TypeError ''wrong argument type (expected Symbol or Proc)''), w)
      else
        (case (if dom_val = Qnil then Inr None
               else (case domain_get dom_val of Inl e \<Rightarrow> Inl e | Inr p \<Rightarrow> Inr (Some p))) of
           Inl e \<Rightarrow> (Inl e, w)
         | Inr domain \<Rightarrow>
             (case NUM2INT eventID of
                Inl e \<Rightarrow> (Inl e, w)
              | Inr n \<Rightarrow>
                  (case internalcb_of n of
                     None \<Rightarrow> (Inl (ArgError (''invalid eventID argument '' @ format_d n)), w)
                   | Some internalcb \<Rightarrow>
                       (let passthrough = RArray (rb_ary_store (rb_ary_store [] 0 cb) 1 opaque);
                            (r, w') = virConnectDomainEventRegisterAny domain n internalcb
                                        passthrough w
                        in if r < 0
                           then (Inl (RetrieveError ''virConnectDomainEventRegisterAny''), w')
                           else (Inr (RInt r), w'))))))"

text \<open>
  \<^verbatim>\<open>libvirt_conn_domain_event_deregister_any\<close>, connect.c lines 898-903. The macro
  \<^verbatim>\<open>gen_call_void\<close> of common.h is modelled from the spec (\<^verbatim>\<open>Success | Error\<close>):
  a negative return value is raised as an error, otherwise nil is returned.
\<close>

definition libvirt_conn_domain_event_deregister_any ::
  "int \<Rightarrow> world \<Rightarrow> (exc + rvalue) \<times> world" where
  "libvirt_conn_domain_event_deregister_any callbackID w =
     (let (r, w') = virConnectDomainEventDeregisterAny callbackID w
      in if r < 0 then (Inl (LibvirtError ''virConnectDomainEventDeregisterAny''), w')
         else (Inr Qnil, w'))"

text \<open>
  The raw events, one shape per event id, and their delivery: libvirt calls the adapter
  of a registration with the data of an event of the registration's kind and the
  registered opaque pointer. An event of another kind is not delivered to it.
\<close>

datatype event =
    Ev_lifecycle int int
  | Ev_reboot
  | Ev_rtc int
  | Ev_watchdog int
  | Ev_io_error string string int
  | Ev_io_error_reason string string int string
  | Ev_graphics int address address string subject

fun event_id :: "event \<Rightarrow> int" where
  "event_id (Ev_lifecycle e d) = VIR_DOMAIN_EVENT_ID_LIFECYCLE"
| "event_id Ev_reboot = VIR_DOMAIN_EVENT_ID_REBOOT"
| "event_id (Ev_rtc u) = VIR_DOMAIN_EVENT_ID_RTC_CHANGE"
| "event_id (Ev_watchdog a) = VIR_DOMAIN_EVENT_ID_WATCHDOG"
| "event_id (Ev_io_error s d a) = VIR_DOMAIN_EVENT_ID_IO_ERROR"
| "event_id (Ev_io_error_reason s d a r) = VIR_DOMAIN_EVENT_ID_IO_ERROR_REASON"
| "event_id (Ev_graphics p l r a s) = VIR_DOMAIN_EVENT_ID_GRAPHICS"

definition deliver ::
  "handler \<Rightarrow> nat \<Rightarrow> nat \<Rightarrow> event \<Rightarrow> adapter \<Rightarrow> rvalue \<Rightarrow> world
     \<Rightarrow> ((exc + int) \<times> world) option" where
  "deliver h conn domain ev cb opaque w =
     (case cb of
        Cb_lifecycle \<Rightarrow>
          (case ev of
             Ev_lifecycle e d \<Rightarrow>
               Some (domain_event_lifecycle_callback h conn domain e d opaque w)
           | other \<Rightarrow> None)
      | Cb_reboot \<Rightarrow>
          (case ev of
             Ev_reboot \<Rightarrow> Some (domain_event_reboot_callback h conn domain opaque w)
           | other \<Rightarrow> None)
      | Cb_rtc \<Rightarrow>
          (case ev of
             Ev_rtc u \<Rightarrow> Some (domain_event_rtc_callback h conn domain u opaque w)
           | other \<Rightarrow> None)
      | Cb_watchdog \<Rightarrow>
          (case ev of
             Ev_watchdog a \<Rightarrow> Some (domain_event_watchdog_callback h conn domain a opaque w)
           | other \<Rightarrow> None)
      | Cb_io_error \<Rightarrow>
          (case ev of
             Ev_io_error s d a \<Rightarrow>
               Some (domain_event_io_error_callback h conn domain s d a opaque w)
           | other \<Rightarrow> None)
      | Cb_io_error_reason \<Rightarrow>
          (case ev of
             Ev_io_error_reason s d a r \<Rightarrow>
               Some (domain_event_io_error_reason_callback h conn domain s d a r opaque w)
           | other \<Rightarrow> None)
      | Cb_graphics \<Rightarrow>
          (case ev of
             Ev_graphics p l r a s \<Rightarrow>
               Some (domain_event_graphics_callback h conn domain p l r a s opaque w)
           | other \<Rightarrow> None))"

text \<open>
  The argument contract of section 4.3 of the specification, written from its words
  and not from the code: the positional arguments the handler of each event kind must
  receive. An address is the mapping of its three parts; the subject identity list has
  one (type, name) pair per identity of the raw event, in order.
\<close>

definition spec_address :: "address \<Rightarrow> rvalue" where
  "spec_address a =
     RHash [(RStr ''family'', RInt (addr_family a)), (RStr ''node'', RStr (addr_node a)),
            (RStr ''service'', RStr (addr_service a))]"

definition spec_identity_list :: "subject \<Rightarrow> rvalue" where
  "spec_identity_list s =
     RArray (map (\<lambda>i. RArray [RStr (fst (identities s i)), RStr (snd (identities s i))])
               [0..<nat (nidentity s)])"

fun spec_args :: "rvalue \<Rightarrow> rvalue \<Rightarrow> event \<Rightarrow> rvalue \<Rightarrow> rvalue list" where
  "spec_args connection dom_obj (Ev_lifecycle eventCode detailCode) userData =
     [connection, dom_obj, RInt eventCode, RInt detailCode, userData]"
| "spec_args connection dom_obj Ev_reboot userData = [connection, dom_obj, userData]"
| "spec_args connection dom_obj (Ev_rtc utcOffsetDelta) userData =
     [connection, dom_obj, RInt utcOffsetDelta, userData]"
| "spec_args connection dom_obj (Ev_watchdog actionCode) userData =
     [connection, dom_obj, RInt actionCode, userData]"
| "spec_args connection dom_obj (Ev_io_error sourcePath deviceAlias actionCode) userData =
     [connection, dom_obj, RStr sourcePath, RStr deviceAlias, RInt actionCode, userData]"
| "spec_args connection dom_obj (Ev_io_error_reason sourcePath deviceAlias actionCode reason)
       userData =
     [connection, dom_obj, RStr sourcePath, RStr deviceAlias, RInt actionCode, RStr reason,
      userData]"
| "spec_args connection dom_obj (Ev_graphics phaseCode localAddress remoteAddress authScheme
       subj) userData =
     [connection, dom_obj, RInt phaseCode, spec_address localAddress,
      spec_address remoteAddress, RStr authScheme, spec_identity_list subj, userData]"

text \<open>
  How a handler reference is invoked: a Symbol names a method, called on the class of
  the symbol; a Proc receives \<^verbatim>\<open>call\<close>.
\<close>

fun target :: "rvalue \<Rightarrow> rvalue \<times> string" where
  "target (RSym s) = (RClass ''Symbol'', s)"
| "target cb = (cb, ''call'')"

section \<open>Typed parameters\<close>

text \<open>
  \<^verbatim>\<open>struct _virTypedParameter\<close>, domain.c lines 44-59: the name, the type tag and
  the union of the seven members. The union is represented by the member that was
  stored; \<open>U_d\<close> holds the 64 bits of the double, \<open>U_s None\<close> is a \<^verbatim>\<open>NULL\<close>
  pointer. The tags 1 to 6 are the values of \<^verbatim>\<open>VIR_DOMAIN_SCHED_FIELD_INT\<close> to
  \<^verbatim>\<open>VIR_DOMAIN_SCHED_FIELD_BOOLEAN\<close> in libvirt.h.
\<close>

definition VIR_TYPED_PARAM_INT :: int where
  "VIR_TYPED_PARAM_INT = 1"

definition VIR_TYPED_PARAM_UINT :: int where
  "VIR_TYPED_PARAM_UINT = 2"

definition VIR_TYPED_PARAM_LLONG :: int where
  "VIR_TYPED_PARAM_LLONG = 3"

definition VIR_TYPED_PARAM_ULLONG :: int where
  "VIR_TYPED_PARAM_ULLONG = 4"

definition VIR_TYPED_PARAM_DOUBLE :: int where
  "VIR_TYPED_PARAM_DOUBLE = 5"

definition VIR_TYPED_PARAM_BOOLEAN :: int where
  "VIR_TYPED_PARAM_BOOLEAN = 6"

definition VIR_TYPED_PARAM_STRING :: int where
  "VIR_TYPED_PARAM_STRING = 7"

definition VIR_TYPED_PARAM_FIELD_LENGTH :: nat where
  "VIR_TYPED_PARAM_FIELD_LENGTH = 80"

datatype raw_union =
    U_i "32 word"
  | U_ui "32 word"
  | U_l "64 word"
  | U_ul "64 word"
  | U_d "64 word"
  | U_b "8 word"
  | U_s "string option"

record virTypedParameter =
  raw_field :: string
  raw_type :: int
  raw_union :: raw_union

text \<open>
  The member of the union that a type tag names, and the invariant the declaration
  states in its comments: the stored member is the one of the tag, and the string of a
  STRING parameter ``may not be NULL''.
\<close>

fun member_tag :: "raw_union \<Rightarrow> int" where
  "member_tag (U_i x) = VIR_TYPED_PARAM_INT"
| "member_tag (U_ui x) = VIR_TYPED_PARAM_UINT"
| "member_tag (U_l x) = VIR_TYPED_PARAM_LLONG"
| "member_tag (U_ul x) = VIR_TYPED_PARAM_ULLONG"
| "member_tag (U_d x) = VIR_TYPED_PARAM_DOUBLE"
| "member_tag (U_b x) = VIR_TYPED_PARAM_BOOLEAN"
| "member_tag (U_s x) = VIR_TYPED_PARAM_STRING"

definition raw_ok :: "virTypedParameter \<Rightarrow> bool" where
  "raw_ok r \<longleftrightarrow> member_tag (raw_union r) = raw_type r \<and> raw_union r \<noteq> U_s None"

text \<open>
  Modelled from the spec: the codec (\<^verbatim>\<open>get_parameters\<close> and \<^verbatim>\<open>set_parameters\<close>
  of common.c) is not among the sources. Section 3: a TypedValue has a bounded name,
  a kind and a payload that is a sum type whose variant is the kind; a ParameterSet
  is an ordered sequence of them. A String payload may hold no string, which is what
  encode must refuse.
\<close>

datatype kind = Int32 | UInt32 | Int64 | UInt64 | Double | Boolean | String_kind

datatype payload =
    P_Int32 "32 word"
  | P_UInt32 "32 word"
  | P_Int64 "64 word"
  | P_UInt64 "64 word"
  | P_Double "64 word"
  | P_Boolean bool
  | P_String "string option"

record typed_value =
  tv_name :: string
  tv_payload :: payload

fun kind_of :: "payload \<Rightarrow> kind" where
  "kind_of (P_Int32 x) = Int32"
| "kind_of (P_UInt32 x) = UInt32"
| "kind_of (P_Int64 x) = Int64"
| "kind_of (P_UInt64 x) = UInt64"
| "kind_of (P_Double x) = Double"
| "kind_of (P_Boolean x) = Boolean"
| "kind_of (P_String x) = String_kind"

fun kind_tag :: "kind \<Rightarrow> int" where
  "kind_tag Int32 = VIR_TYPED_PARAM_INT"
| "kind_tag UInt32 = VIR_TYPED_PARAM_UINT"
| "kind_tag Int64 = VIR_TYPED_PARAM_LLONG"
| "kind_tag UInt64 = VIR_TYPED_PARAM_ULLONG"
| "kind_tag Double = VIR_TYPED_PARAM_DOUBLE"
| "kind_tag Boolean = VIR_TYPED_PARAM_BOOLEAN"
| "kind_tag String_kind = VIR_TYPED_PARAM_STRING"

definition tv_ok :: "typed_value \<Rightarrow> bool" where
  "tv_ok tv \<longleftrightarrow> tv_payload tv \<noteq> P_String None"

datatype codec_error = DecodeError | InvalidValueError | NameTooLongError

text \<open>
  Modelled from the spec: encode, section 4.1, ``for each entry, write name
  truncated/validated to the bounded capacity (fails with NameTooLongError if it would
  truncate silently), write kind tag, write the matching union arm. String payloads
  must not be null; encode fails with InvalidValueError for a String-kind entry holding
  no string.'' A Boolean is written as the byte 0 or 1. Nothing is written when an
  entry fails.
\<close>

fun encode_payload :: "payload \<Rightarrow> codec_error + raw_union" where
  "encode_payload (P_Int32 x) = Inr (U_i x)"
| "encode_payload (P_UInt32 x) = Inr (U_ui x)"
| "encode_payload (P_Int64 x) = Inr (U_l x)"
| "encode_payload (P_UInt64 x) = Inr (U_ul x)"
| "encode_payload (P_Double x) = Inr (U_d x)"
| "encode_payload (P_Boolean b) = Inr (U_b (if b then 1 else 0))"
| "encode_payload (P_String (Some s)) = Inr (U_s (Some s))"
| "encode_payload (P_String None) = Inl InvalidValueError"

definition encode_entry :: "typed_value \<Rightarrow> codec_error + virTypedParameter" where
  "encode_entry tv =
     (if length (tv_name tv) > VIR_TYPED_PARAM_FIELD_LENGTH then Inl NameTooLongError
      else
        (case encode_payload (tv_payload tv) of
           Inl e \<Rightarrow> Inl e
         | Inr u \<Rightarrow>
             Inr \<lparr>raw_field = tv_name tv, raw_type = kind_tag (kind_of (tv_payload tv)),
                  raw_union = u\<rparr>))"

fun encode :: "typed_value list \<Rightarrow> codec_error + virTypedParameter list" where
  "encode [] = Inr []"
| "encode (tv # tvs) =
     (case encode_entry tv of
        Inl e \<Rightarrow> Inl e
      | Inr r \<Rightarrow> (case encode tvs of Inl e \<Rightarrow> Inl e | Inr rs \<Rightarrow> Inr (r # rs)))"

text \<open>
  Modelled from the spec: decode, section 4.1, ``for each raw record, inspect kind;
  copy the matching payload variant. Fails with DecodeError if kind is outside the
  known enum range.'' Any nonzero byte of a Boolean is true. A record whose union
  does not hold the member its tag names has no payload to copy and is refused too.
  Nothing is returned when a record fails.
\<close>

definition decode_entry :: "virTypedParameter \<Rightarrow> codec_error + typed_value" where
  "decode_entry r =
     (if raw_type r < VIR_TYPED_PARAM_INT \<or> VIR_TYPED_PARAM_STRING < raw_type r
      then Inl DecodeError
      else if member_tag (raw_union r) \<noteq> raw_type r then Inl DecodeError
      else
        Inr \<lparr>tv_name = raw_field r,
             tv_payload =
               (case raw_union r of
                  U_i x \<Rightarrow> P_Int32 x
                | U_ui x \<Rightarrow> P_UInt32 x
                | U_l x \<Rightarrow> P_Int64 x
                | U_ul x \<Rightarrow> P_UInt64 x
                | U_d x \<Rightarrow> P_Double x
                | U_b x \<Rightarrow> P_Boolean (x \<noteq> 0)
                | U_s x \<Rightarrow> P_String x)\<rparr>)"

fun decode_all :: "virTypedParameter list \<Rightarrow> codec_error + typed_value list" where
  "decode_all [] = Inr []"
| "decode_all (r # rs) =
     (case decode_entry r of
        Inl e \<Rightarrow> Inl e
      | Inr tv \<Rightarrow> (case decode_all rs of Inl e \<Rightarrow> Inl e | Inr tvs \<Rightarrow> Inr (tv # tvs)))"

definition decode :: "virTypedParameter list \<Rightarrow> nat \<Rightarrow> codec_error + typed_value list" where
  "decode rawArray n = decode_all (take n rawArray)"

section \<open>Properties of the two-phase queries\<close>

lemma live_append: "live (xs @ ys) = live xs + live ys"
  by (induction xs rule: live.induct) auto

text \<open>
  The sites whose receiver is a connection or a domain raise the retrieve error that
  names the counting call when that call fails, and make no other call into libvirt.
\<close>

lemma probe_failure_raises_retrieve_error:
  fixes q :: "string listing" and qi :: "int listing" and ops :: "'p stats_ops"
  shows
  "(probe q < 0 \<longrightarrow>
      gen_conn_list_names objs q w =
        (Inl (RetrieveError (''virConnectNumOf'' @ objs)), call (''virConnectNumOf'' @ objs) None w)
    \<and> libvirt_conn_list_nodedevices q w =
        (Inl (RetrieveError ''virNodeNumOfDevices''), call ''virNodeNumOfDevices'' None w)
    \<and> libvirt_dom_list_snapshots q w =
        (Inl (RetrieveError ''virDomainSnapshotNum''), call ''virDomainSnapshotNum'' None w))
   \<and> (probe qi < 0 \<longrightarrow>
      libvirt_conn_list_domains qi w =
        (Inl (RetrieveError ''virConnectNumOfDomains''), call ''virConnectNumOfDomains'' None w))
   \<and> (fst (get_stats ops False 0) = Some f \<longrightarrow>
      internal_get_stats ops w = (Inl (RetrieveError f), call ''get_stats'' None w))"
  by (auto simp: gen_conn_list_names_def libvirt_conn_list_nodedevices_def
      libvirt_dom_list_snapshots_def libvirt_conn_list_domains_def internal_get_stats_def
      Let_def split: prod.splits)

text \<open>
  A snapshot leads to no connection: it holds no \<^verbatim>\<open>@connection\<close>. With a snapshot
  as receiver, both error exits of \<^verbatim>\<open>libvirt_dom_snapshot_list_children_names\<close>
  therefore raise the argument error of \<^verbatim>\<open>conn_attr\<close>; with a receiver that leads
  to a connection they raise the retrieve error.
\<close>

lemma snapshot_has_no_connection:
  "connect_get (RSnapshot p dm) = Inl (ArgError ''Expected Connection object'')"
  by (simp add: connect_get_def conn_attr_def)

lemma snapshot_receiver_probe_failure:
  "probe q < 0 \<Longrightarrow>
   libvirt_dom_snapshot_list_children_names (RSnapshot p dm) q w =
     (Inl (ArgError ''Expected Connection object''),
      call ''virDomainSnapshotNumChildren'' None w)"
  by (simp add: libvirt_dom_snapshot_list_children_names_def snapshot_has_no_connection)

lemma snapshot_receiver_fetch_failure:
  "0 \<le> probe q \<Longrightarrow> fst (fetch q (probe q)) < 0 \<Longrightarrow>
   libvirt_dom_snapshot_list_children_names (RSnapshot p dm) q w =
     (Inl (ArgError ''Expected Connection object''),
      call ''virDomainSnapshotListChildrenNames'' (Some (probe q))
        (call ''virDomainSnapshotNumChildren'' None w))"
  by (auto simp: libvirt_dom_snapshot_list_children_names_def snapshot_has_no_connection
      Let_def split: prod.splits)

text \<open>
  C5. When the counting call of a two-phase query signals failure, the operation must
  propagate the retrieve error of that call, and must not perform the fetch.
  \<^verbatim>\<open>libvirt_dom_snapshot_list_children_names\<close> does not perform the fetch, but it
  builds the retrieve error with \<^verbatim>\<open>connect_get(d)\<close> on its receiver, a snapshot:
  what propagates is the argument error ``Expected Connection object''. The run is
  evaluated here, for a snapshot of a domain on an open connection.
\<close>

theorem children_names_probe_failure_is_argument_error:
  "libvirt_dom_snapshot_list_children_names (RSnapshot 1 (RDomain 7 (RConnect 1)))
     \<lparr>probe = - 1, fetch = (\<lambda>n. (0, [])), junk = (\<lambda>i. []), raises = (\<lambda>s. None)\<rparr>
     \<lparr>trace = [], regs = [], next_id = 0\<rparr>
   = (Inl (ArgError ''Expected Connection object''),
      \<lparr>trace = [Call ''virDomainSnapshotNumChildren'' None], regs = [], next_id = 0\<rparr>)"
  by (simp add: libvirt_dom_snapshot_list_children_names_def call_def connect_get_def
      conn_attr_def)

text \<open>
  The sites that test the probed count against zero return the empty result after the
  counting call alone.
\<close>

lemma zero_probe_skips_fetch:
  fixes q :: "string listing" and qi :: "int listing" and ops :: "'p stats_ops"
  shows
  "(probe q = 0 \<longrightarrow>
      gen_conn_list_names objs q w = (Inr (RArray []), call (''virConnectNumOf'' @ objs) None w)
    \<and> libvirt_conn_list_nodedevices q w = (Inr (RArray []), call ''virNodeNumOfDevices'' None w)
    \<and> libvirt_dom_list_snapshots q w = (Inr (RArray []), call ''virDomainSnapshotNum'' None w))
   \<and> (probe qi = 0 \<longrightarrow>
      libvirt_conn_list_domains qi w = (Inr (RArray []), call ''virConnectNumOfDomains'' None w))
   \<and> (get_stats ops False 0 = (None, 0, u) \<longrightarrow>
      internal_get_stats ops w = (Inr (RHash []), call ''get_stats'' None w))"
  by (auto simp: gen_conn_list_names_def libvirt_conn_list_nodedevices_def
      libvirt_dom_list_snapshots_def libvirt_conn_list_domains_def internal_get_stats_def Let_def)

text \<open>
  C2. A two-phase query whose counting call reports 0 must return an empty result
  without performing the fetch. \<^verbatim>\<open>libvirt_dom_snapshot_list_children_names\<close> has no
  such test: for a snapshot without children it still calls
  \<^verbatim>\<open>virDomainSnapshotListChildrenNames\<close> with a buffer of size 0, and when that
  call rejects the empty buffer the operation raises instead of returning the empty
  list (the argument error of \<^verbatim>\<open>connect_get\<close> on the snapshot, raised while the
  retrieve error is built). Both runs are evaluated here.
\<close>

theorem children_names_fetch_after_zero_probe:
  "libvirt_dom_snapshot_list_children_names (RSnapshot 1 (RDomain 7 (RConnect 1)))
     \<lparr>probe = 0, fetch = (\<lambda>n. (0, [])), junk = (\<lambda>i. ''''), raises = (\<lambda>s. None)\<rparr>
     \<lparr>trace = [], regs = [], next_id = 0\<rparr>
   = (Inr (RArray []),
      \<lparr>trace = [Call ''virDomainSnapshotNumChildren'' None,
                Call ''virDomainSnapshotListChildrenNames'' (Some 0)],
       regs = [], next_id = 0\<rparr>)
   \<and> libvirt_dom_snapshot_list_children_names (RSnapshot 1 (RDomain 7 (RConnect 1)))
     \<lparr>probe = 0, fetch = (\<lambda>n. (if n = 0 then - 1 else 0, [])), junk = (\<lambda>i. ''''),
      raises = (\<lambda>s. None)\<rparr>
     \<lparr>trace = [], regs = [], next_id = 0\<rparr>
   = (Inl (ArgError ''Expected Connection object''),
      \<lparr>trace = [Call ''virDomainSnapshotNumChildren'' None,
                Call ''virDomainSnapshotListChildrenNames'' (Some 0)],
       regs = [], next_id = 0\<rparr>)"
  by (simp add: libvirt_dom_snapshot_list_children_names_def call_def connect_get_def
      conn_attr_def)

text \<open>
  C1. When the fetch reports fewer elements than were probed, the result must have the
  length the fetch reported. \<^verbatim>\<open>libvirt_conn_list_domains\<close> loops to the probed
  count: with 3 probed and 2 fetched it returns 3 elements, the last one read from a
  slot the fetch never wrote.
\<close>

theorem listing_length_is_probed_count:
  "libvirt_conn_list_domains
     \<lparr>probe = 3, fetch = (\<lambda>n. (2, [7, 9])), junk = (\<lambda>i. 0), raises = (\<lambda>s. None)\<rparr>
     \<lparr>trace = [], regs = [], next_id = 0\<rparr>
   = (Inr (RArray [RInt 7, RInt 9, RInt 0]),
      \<lparr>trace = [Call ''virConnectNumOfDomains'' None, Call ''virConnectListDomains'' (Some 3)],
       regs = [], next_id = 0\<rparr>)"
  by (simp add: libvirt_conn_list_domains_def call_def slot_def upt_rec)

text \<open>
  The same run of \<^verbatim>\<open>libvirt_dom_list_snapshots\<close>, which hands the probed count to
  \<^verbatim>\<open>gen_list\<close>.
\<close>

lemma snapshot_listing_example:
  "libvirt_dom_list_snapshots
     \<lparr>probe = 3, fetch = (\<lambda>n. (2, [''s1'', ''s2''])), junk = (\<lambda>i. ''?''),
      raises = (\<lambda>s. None)\<rparr>
     \<lparr>trace = [], regs = [], next_id = 0\<rparr>
   = (Inr (RArray [RStr ''s1'', RStr ''s2'', RStr ''?'']),
      \<lparr>trace = [Call ''virDomainSnapshotNum'' None, Call ''virDomainSnapshotListNames'' (Some 3)],
       regs = [], next_id = 0\<rparr>)"
  by (simp add: libvirt_dom_list_snapshots_def call_def gen_list_def slot_def upt_rec)

text \<open>
  The loop of \<^verbatim>\<open>libvirt_dom_snapshot_list_children_names\<close> runs to the count of the
  fetch, and frees every string the fetch returned exactly once on each of its exits.
\<close>

lemma store_children_trace:
  "store_children rs children n [j..<n] result w = (res, w')
   \<Longrightarrow> w' = w\<lparr>trace := trace w @ map Free_str [j..<n]\<rparr>"
proof (induction "n - j" arbitrary: j result w)
  case 0
  then show ?case by simp
next
  case (Suc k)
  then have lt: "j < n" and k: "k = n - Suc j" by simp_all
  have step: "[j..<n] = j # [Suc j..<n]" using lt by (simp add: upt_conv_Cons)
  have prem: "store_children rs children n (j # [Suc j..<n]) result w = (res, w')"
    using Suc.prems unfolding step .
  show ?case
  proof (cases "rs (Str_new j)")
    case (Some e)
    with prem show ?thesis by (simp add: free_from_def)
  next
    case None
    note n1 = this
    show ?thesis
    proof (cases "rs (Ary_store j)")
      case (Some e)
      with n1 prem show ?thesis by (simp add: free_from_def)
    next
      case None
      with n1 prem have
        "store_children rs children n [Suc j..<n] (result @ [RStr (children j)])
           (emit (Free_str j) w) = (res, w')"
        by simp
      from Suc.hyps(1) [OF k this] have
        "w' = (emit (Free_str j) w)\<lparr>trace := trace (emit (Free_str j) w) @ map Free_str [Suc j..<n]\<rparr>" .
      then show ?thesis unfolding step by (simp add: emit_def)
    qed
  qed
qed

lemma store_children_result:
  "\<forall>i \<in> set idx. rs (Str_new i) = None \<and> rs (Ary_store i) = None \<Longrightarrow>
   fst (store_children rs children n idx result w) = Inr (RArray (result @ map (\<lambda>i. RStr (children i)) idx))"
  by (induction idx arbitrary: result w) auto

lemma children_names_truncated:
  assumes "0 \<le> probe q" and "fetch q (probe q) = (ret, written)" and "0 \<le> ret"
    and "\<forall>i. raises q (Str_new i) = None \<and> raises q (Ary_store i) = None"
  shows "fst (libvirt_dom_snapshot_list_children_names d q w) =
           Inr (RArray (map (\<lambda>i. RStr (slot q written i)) [0..<nat ret]))"
  using assms store_children_result [of "[0..<nat ret]" "raises q" "slot q written" "nat ret" "[]"]
  by (simp add: libvirt_dom_snapshot_list_children_names_def Let_def)

lemma children_names_trace:
  assumes "0 \<le> probe q" and "fetch q (probe q) = (ret, written)" and "0 \<le> ret"
  shows "trace (snd (libvirt_dom_snapshot_list_children_names d q w)) =
           trace w @ [Call ''virDomainSnapshotNumChildren'' None,
                      Call ''virDomainSnapshotListChildrenNames'' (Some (probe q))]
             @ map Free_str [0..<nat ret]"
proof -
  let ?w2 = "call ''virDomainSnapshotListChildrenNames'' (Some (probe q))
               (call ''virDomainSnapshotNumChildren'' None w)"
  obtain res w' where r:
    "store_children (raises q) (slot q written) (nat ret) [0..<nat ret] [] ?w2 = (res, w')"
    by (cases "store_children (raises q) (slot q written) (nat ret) [0..<nat ret] [] ?w2")
  from store_children_trace [OF r] have "trace w' = trace ?w2 @ map Free_str [0..<nat ret]"
    by simp
  with r assms show ?thesis
    by (simp add: libvirt_dom_snapshot_list_children_names_def Let_def call_def)
qed

text \<open>
  C6. When the fetch of a two-phase query fails, or a conversion of its result raises,
  everything allocated for the query is released before the error propagates. In
  \<^verbatim>\<open>internal_get_stats\<close> both error exits after the allocation end with
  \<^verbatim>\<open>xfree\<close>, and on every exit the number of live blocks is what it was on entry.
  In \<^verbatim>\<open>libvirt_dom_snapshot_list_children_names\<close> every string returned by a
  successful fetch is freed exactly once, whether or not a conversion raises. The other
  queries keep their buffer in the stack frame (\<^verbatim>\<open>alloca\<close>) and allocate nothing.
\<close>

theorem failed_fetch_releases_buffers:
  fixes ops :: "'p stats_ops" and q :: "string listing"
  shows
  "(get_stats ops False 0 = (None, n, u) \<and> n \<noteq> 0 \<and> alloc_stats ops n = None \<and>
    get_stats ops True n = (Some f, n2, written) \<longrightarrow>
      internal_get_stats ops w =
        (Inl (RetrieveError f),
         w\<lparr>trace := trace w @ [Call ''get_stats'' None, Alloc n, Call ''get_stats'' (Some n),
                               Xfree]\<rparr>))
   \<and> (get_stats ops False 0 = (None, n, u) \<and> n \<noteq> 0 \<and> alloc_stats ops n = None \<and>
      get_stats ops True n = (None, n2, written) \<and>
      set_stats (hash_set ops) (entry ops written) [0..<nat n2] (RHash []) = Inl e \<longrightarrow>
      internal_get_stats ops w =
        (Inl e,
         w\<lparr>trace := trace w @ [Call ''get_stats'' None, Alloc n, Call ''get_stats'' (Some n),
                               Xfree]\<rparr>))
   \<and> live (trace (snd (internal_get_stats ops w))) = live (trace w)
   \<and> (0 \<le> probe q \<and> fetch q (probe q) = (ret, names) \<and> 0 \<le> ret \<longrightarrow>
      trace (snd (libvirt_dom_snapshot_list_children_names d q w)) =
        trace w @ [Call ''virDomainSnapshotNumChildren'' None,
                   Call ''virDomainSnapshotListChildrenNames'' (Some (probe q))]
          @ map Free_str [0..<nat ret])"
proof -
  have a: "live (trace (snd (internal_get_stats ops w))) = live (trace w)"
    by (auto simp: internal_get_stats_def Let_def call_def emit_def live_append
        split: prod.splits option.splits sum.splits)
  show ?thesis
    using a children_names_trace [of q ret names d w]
    by (auto simp: internal_get_stats_def Let_def call_def emit_def)
qed

theorem failed_fetch_releases_buffers_witness:
  "internal_get_stats
     \<lparr>get_stats = (\<lambda>g k. if g then (Some ''virNodeGetCPUStats'', k, []) else (None, 4, [])),
      alloc_stats = (\<lambda>k. None), hash_set = cpu_hash_set,
      heap_junk = (\<lambda>i. \<lparr>stat_field = [], stat_val = 0\<rparr>)\<rparr>
     \<lparr>trace = [], regs = [], next_id = 0\<rparr>
   = (Inl (RetrieveError ''virNodeGetCPUStats''),
      \<lparr>trace = [Call ''get_stats'' None, Alloc 4, Call ''get_stats'' (Some 4), Xfree],
       regs = [], next_id = 0\<rparr>)
   \<and> internal_get_stats
     \<lparr>get_stats = (\<lambda>g k. if g then (None, 2, [\<lparr>stat_field = ''user'', stat_val = 5\<rparr>,
                                               \<lparr>stat_field = ''idle'', stat_val = 6\<rparr>])
                          else (None, 2, [])),
      alloc_stats = (\<lambda>k. None),
      hash_set = (\<lambda>p i r. if i = 1 then Inl (RubyExc ''NoMemoryError'') else cpu_hash_set p i r),
      heap_junk = (\<lambda>i. \<lparr>stat_field = [], stat_val = 0\<rparr>)\<rparr>
     \<lparr>trace = [], regs = [], next_id = 0\<rparr>
   = (Inl (RubyExc ''NoMemoryError''),
      \<lparr>trace = [Call ''get_stats'' None, Alloc 2, Call ''get_stats'' (Some 2), Xfree],
       regs = [], next_id = 0\<rparr>)
   \<and> trace (snd (libvirt_dom_snapshot_list_children_names
        (RSnapshot 1 (RDomain 7 (RConnect 1)))
        \<lparr>probe = 3, fetch = (\<lambda>k. (3, [''a'', ''b'', ''c''])), junk = (\<lambda>i. []),
         raises = (\<lambda>s. if s = Ary_store 1 then Some (RubyExc ''NoMemoryError'') else None)\<rparr>
        \<lparr>trace = [], regs = [], next_id = 0\<rparr>))
   = [Call ''virDomainSnapshotNumChildren'' None,
      Call ''virDomainSnapshotListChildrenNames'' (Some 3), Free_str 0, Free_str 1, Free_str 2]"
proof -
  let ?w0 = "\<lparr>trace = [], regs = [], next_id = 0\<rparr>"
  let ?q = "\<lparr>probe = 3, fetch = (\<lambda>k. (3, [''a'', ''b'', ''c''])), junk = (\<lambda>i. []),
         raises = (\<lambda>s. if s = Ary_store 1 then Some (RubyExc ''NoMemoryError'') else None)\<rparr>"
  let ?ops1 = "\<lparr>get_stats = (\<lambda>g k. if g then (Some ''virNodeGetCPUStats'', k, []) else (None, 4, [])),
      alloc_stats = (\<lambda>k. None), hash_set = cpu_hash_set,
      heap_junk = (\<lambda>i. \<lparr>stat_field = [], stat_val = 0\<rparr>)\<rparr>"
  let ?ops2 = "\<lparr>get_stats = (\<lambda>g k. if g then (None, 2, [\<lparr>stat_field = ''user'', stat_val = 5\<rparr>,
                                               \<lparr>stat_field = ''idle'', stat_val = 6\<rparr>])
                          else (None, 2, [])),
      alloc_stats = (\<lambda>k. None),
      hash_set = (\<lambda>p i r. if i = 1 then Inl (RubyExc ''NoMemoryError'') else cpu_hash_set p i r),
      heap_junk = (\<lambda>i. \<lparr>stat_field = [], stat_val = 0\<rparr>)\<rparr>"
  have s: "set_stats (hash_set ?ops2)
             (entry ?ops2 [\<lparr>stat_field = ''user'', stat_val = 5\<rparr>, \<lparr>stat_field = ''idle'', stat_val = 6\<rparr>])
             [0..<nat 2] (RHash []) = Inl (RubyExc ''NoMemoryError'')"
    by (simp add: upt_rec cpu_hash_set_def entry_def)
  show ?thesis
    using failed_fetch_releases_buffers [of ?ops1 4 "[]" "''virNodeGetCPUStats''" 4 "[]" ?w0 _ ?q 3
        "[''a'', ''b'', ''c'']" "RSnapshot 1 (RDomain 7 (RConnect 1))"]
      failed_fetch_releases_buffers [of ?ops2 2 "[]" _ 2
        "[\<lparr>stat_field = ''user'', stat_val = 5\<rparr>, \<lparr>stat_field = ''idle'', stat_val = 6\<rparr>]"
        ?w0 "RubyExc ''NoMemoryError''" ?q 3 "[''a'', ''b'', ''c'']"
        "RSnapshot 1 (RDomain 7 (RConnect 1))"] s
    by (simp add: upt_rec)
qed

section \<open>Properties of the domain event callbacks\<close>

lemma symbol_or_proc_cases:
  "is_symbol_or_proc cb \<longleftrightarrow> (\<exists>s. cb = RSym s) \<or> (\<exists>p. cb = RProc p)"
  by (cases cb) (simp_all add: is_symbol_or_proc_def)

lemma passthrough_pair: "rb_ary_store (rb_ary_store [] 0 cb) 1 opaque = [cb, opaque]"
  by (simp add: rb_ary_store_def)

lemma unpack_pair: "unpack what (RArray [cb, opaque]) = Inr (cb, opaque)"
  by (simp add: unpack_def)

lemma address_hash_spec: "address_hash a = spec_address a"
  by (simp add: address_hash_def spec_address_def)

lemma store_identities_append:
  "length arr = j \<Longrightarrow>
   store_identities ids [j..<n] arr =
     arr @ map (\<lambda>i. RArray [RStr (fst (ids i)), RStr (snd (ids i))]) [j..<n]"
proof (induction "n - j" arbitrary: j arr)
  case 0
  then show ?case by simp
next
  case (Suc k)
  then have lt: "j < n" and k: "k = n - Suc j" by simp_all
  have step: "[j..<n] = j # [Suc j..<n]" using lt by (simp add: upt_conv_Cons)
  have len: "length (rb_ary_store arr j (RArray [RStr (fst (ids j)), RStr (snd (ids j))])) = Suc j"
    using Suc.prems by (simp add: rb_ary_store_def)
  show ?case
    unfolding step
    using Suc.hyps(1) [OF k len] Suc.prems
    by (simp add: passthrough_pair Let_def) (simp add: rb_ary_store_def)
qed

lemma subject_array_spec:
  "RArray (store_identities (identities s) [0..<nat (nidentity s)] []) = spec_identity_list s"
  using store_identities_append [of "[]" 0 "identities s" "nat (nidentity s)"]
  by (simp add: spec_identity_list_def)

lemma invoke_symbol:
  "invoke h what (RSym s) args w =
     ((case h (RClass ''Symbol'') s args of Some e \<Rightarrow> Inl e | None \<Rightarrow> Inr 0),
      emit (Funcall (RClass ''Symbol'') s args) w)"
  by (simp add: invoke_def rb_funcall_def rb_class_of_def)

lemma invoke_proc:
  "invoke h what (RProc p) args w =
     ((case h (RProc p) ''call'' args of Some e \<Rightarrow> Inl e | None \<Rightarrow> Inr 0),
      emit (Funcall (RProc p) ''call'' args) w)"
  by (simp add: invoke_def rb_funcall_def)

lemma invoke_target:
  "is_symbol_or_proc cb \<Longrightarrow>
   invoke h what cb args w =
     ((case h (fst (target cb)) (snd (target cb)) args of Some e \<Rightarrow> Inl e | None \<Rightarrow> Inr 0),
      emit (Funcall (fst (target cb)) (snd (target cb)) args) w)"
  by (auto simp: symbol_or_proc_cases invoke_symbol invoke_proc)

lemma invoke_other:
  "\<not> is_symbol_or_proc cb \<Longrightarrow>
   invoke h what cb args w =
     (Inl (TypeError (''wrong domain event '' @ what @ '' callback (expected Symbol or Proc)'')), w)"
  by (simp add: invoke_def is_symbol_or_proc_def)

lemma internalcb_of_event:
  "internalcb_of (event_id ev) =
     Some (case ev of Ev_lifecycle e d \<Rightarrow> Cb_lifecycle | Ev_reboot \<Rightarrow> Cb_reboot
           | Ev_rtc u \<Rightarrow> Cb_rtc | Ev_watchdog a \<Rightarrow> Cb_watchdog
           | Ev_io_error s d a \<Rightarrow> Cb_io_error
           | Ev_io_error_reason s d a r \<Rightarrow> Cb_io_error_reason
           | Ev_graphics p l r a s \<Rightarrow> Cb_graphics)"
  by (cases ev)
    (simp_all add: internalcb_of_def VIR_DOMAIN_EVENT_ID_LIFECYCLE_def
      VIR_DOMAIN_EVENT_ID_REBOOT_def VIR_DOMAIN_EVENT_ID_RTC_CHANGE_def
      VIR_DOMAIN_EVENT_ID_WATCHDOG_def VIR_DOMAIN_EVENT_ID_IO_ERROR_def
      VIR_DOMAIN_EVENT_ID_GRAPHICS_def VIR_DOMAIN_EVENT_ID_IO_ERROR_REASON_def)

lemma deliver_registered:
  assumes "is_symbol_or_proc cb" and "internalcb_of (event_id ev) = Some a"
  shows "deliver h conn d ev a (RArray [cb, opaque]) w =
     Some ((case h (fst (target cb)) (snd (target cb))
                   (spec_args (RConnect conn) (RDomain d (RConnect conn)) ev opaque) of
              Some e \<Rightarrow> Inl e | None \<Rightarrow> Inr 0),
           emit (Funcall (fst (target cb)) (snd (target cb))
                   (spec_args (RConnect conn) (RDomain d (RConnect conn)) ev opaque)) w)"
  using assms(2) unfolding internalcb_of_event
  by (cases ev)
    (auto simp: deliver_def domain_event_lifecycle_callback_def domain_event_reboot_callback_def
      domain_event_rtc_callback_def domain_event_watchdog_callback_def
      domain_event_io_error_callback_def domain_event_io_error_reason_callback_def
      domain_event_graphics_callback_def unpack_pair invoke_target [OF assms(1)]
      connect_new_def domain_new_def address_hash_spec subject_array_spec Let_def)

text \<open>
  C4. For every event kind that can be registered, delivering an event of that kind to
  a registered handler invokes the handler with exactly the positional arguments that
  section 4.3 of the specification fixes for the kind (\<open>spec_args\<close>), in that order:
  when \<^verbatim>\<open>libvirt_conn_domain_event_register_any\<close> has returned a handle for the
  kind of the event, the adapter and opaque pointer it stored make delivery perform
  one call of the handler with these arguments. For a Watchdog event they are the
  connection, the domain, the action code and the user data; for a Graphics event the
  seventh argument is the list with one (type, name) pair per identity of the raw
  event, in order.
\<close>

theorem registered_handler_gets_contract_arguments:
  assumes "libvirt_conn_domain_event_register_any domain_get eventID cb dom_val opaque w
             = (Inr (RInt rid), w')"
    and "NUM2INT eventID = Inr (event_id ev)"
  shows "\<exists>reg. regs w' = regs w @ [(rid, reg)] \<and>
           deliver h conn d ev (reg_cb reg) (reg_opaque reg) w2 =
             Some ((case h (fst (target cb)) (snd (target cb))
                           (spec_args (RConnect conn) (RDomain d (RConnect conn)) ev opaque) of
                      Some e \<Rightarrow> Inl e | None \<Rightarrow> Inr 0),
                   emit (Funcall (fst (target cb)) (snd (target cb))
                           (spec_args (RConnect conn) (RDomain d (RConnect conn)) ev opaque)) w2)"
proof -
  from assms(1) have sp: "is_symbol_or_proc cb"
    by (auto simp: libvirt_conn_domain_event_register_any_def split: if_splits)
  obtain a where a: "internalcb_of (event_id ev) = Some a"
    by (simp add: internalcb_of_event)
  from assms sp a obtain dm where "regs w' = regs w @
      [(rid, \<lparr>reg_event = event_id ev, reg_cb = a, reg_opaque = RArray [cb, opaque],
              reg_dom = dm\<rparr>)]"
    by (auto simp: libvirt_conn_domain_event_register_any_def rb_ary_store_def
        virConnectDomainEventRegisterAny_def Let_def split: if_splits sum.splits)
  moreover have "deliver h conn d ev a (RArray [cb, opaque]) w2 =
             Some ((case h (fst (target cb)) (snd (target cb))
                           (spec_args (RConnect conn) (RDomain d (RConnect conn)) ev opaque) of
                      Some e \<Rightarrow> Inl e | None \<Rightarrow> Inr 0),
                   emit (Funcall (fst (target cb)) (snd (target cb))
                           (spec_args (RConnect conn) (RDomain d (RConnect conn)) ev opaque)) w2)"
    using deliver_registered [OF sp a] by simp
  ultimately show ?thesis by auto
qed

theorem registered_handler_gets_contract_arguments_witness:
  "libvirt_conn_domain_event_register_any (\<lambda>v. Inl (RubyExc ''TypeError'')) (RInt 3)
     (RSym ''on_watchdog'') Qnil (RStr ''x'') \<lparr>trace = [], regs = [], next_id = 0\<rparr>
   = (Inr (RInt 0),
      \<lparr>trace = [Call ''virConnectDomainEventRegisterAny'' None],
       regs = [(0, \<lparr>reg_event = 3, reg_cb = Cb_watchdog,
                     reg_opaque = RArray [RSym ''on_watchdog'', RStr ''x''], reg_dom = None\<rparr>)],
       next_id = 1\<rparr>)
   \<and> NUM2INT (RInt 3) = Inr (event_id (Ev_watchdog 2))
   \<and> deliver (\<lambda>r m a. None) 1 7 (Ev_watchdog 2) Cb_watchdog
        (RArray [RSym ''on_watchdog'', RStr ''x'']) \<lparr>trace = [], regs = [], next_id = 0\<rparr>
      = Some (Inr 0,
              \<lparr>trace = [Funcall (RClass ''Symbol'') ''on_watchdog''
                          [RConnect 1, RDomain 7 (RConnect 1), RInt 2, RStr ''x'']],
               regs = [], next_id = 0\<rparr>)"
proof -
  let ?w0 = "\<lparr>trace = [], regs = [], next_id = 0\<rparr>"
  let ?w1 = "\<lparr>trace = [Call ''virConnectDomainEventRegisterAny'' None],
       regs = [(0, \<lparr>reg_event = 3, reg_cb = Cb_watchdog,
                     reg_opaque = RArray [RSym ''on_watchdog'', RStr ''x''], reg_dom = None\<rparr>)],
       next_id = 1\<rparr>"
  have r: "libvirt_conn_domain_event_register_any (\<lambda>v. Inl (RubyExc ''TypeError'')) (RInt 3)
             (RSym ''on_watchdog'') Qnil (RStr ''x'') ?w0 = (Inr (RInt 0), ?w1)"
    by (simp add: libvirt_conn_domain_event_register_any_def is_symbol_or_proc_def
        internalcb_of_def virConnectDomainEventRegisterAny_def rb_ary_store_def
        VIR_DOMAIN_EVENT_ID_LIFECYCLE_def
        VIR_DOMAIN_EVENT_ID_REBOOT_def VIR_DOMAIN_EVENT_ID_RTC_CHANGE_def
        VIR_DOMAIN_EVENT_ID_WATCHDOG_def)
  have n: "NUM2INT (RInt 3) = Inr (event_id (Ev_watchdog 2))"
    by (simp add: VIR_DOMAIN_EVENT_ID_WATCHDOG_def)
  from registered_handler_gets_contract_arguments [OF r n, of "\<lambda>r m a. None" 1 7 ?w0]
  obtain reg where reg: "regs ?w1 = regs ?w0 @ [(0, reg)]"
    and d: "deliver (\<lambda>r m a. None) 1 7 (Ev_watchdog 2) (reg_cb reg) (reg_opaque reg) ?w0 =
          Some (Inr 0,
            emit (Funcall (RClass ''Symbol'') ''on_watchdog''
                    (spec_args (RConnect 1) (RDomain 7 (RConnect 1)) (Ev_watchdog 2) (RStr ''x'')))
              ?w0)"
    by auto
  from reg have "reg = \<lparr>reg_event = 3, reg_cb = Cb_watchdog,
                     reg_opaque = RArray [RSym ''on_watchdog'', RStr ''x''], reg_dom = None\<rparr>"
    by simp
  with d r n show ?thesis by (simp add: emit_def)
qed

text \<open>
  A Graphics event with two identities, delivered to a Proc.
\<close>

lemma graphics_delivery_example:
  "deliver (\<lambda>r m a. None) 1 7
     (Ev_graphics 0 \<lparr>addr_family = 0, addr_node = ''10.0.0.1'', addr_service = ''5900''\<rparr>
        \<lparr>addr_family = 0, addr_node = ''10.0.0.2'', addr_service = ''41000''\<rparr> ''sasl''
        \<lparr>nidentity = 2,
         identities = (\<lambda>i. if i = 0 then (''saslUsername'', ''bob'')
                             else (''x509dname'', ''CN=bob''))\<rparr>)
     Cb_graphics (RArray [RProc 5, Qnil]) \<lparr>trace = [], regs = [], next_id = 0\<rparr>
   = Some (Inr 0,
       \<lparr>trace = [Funcall (RProc 5) ''call''
          [RConnect 1, RDomain 7 (RConnect 1), RInt 0,
           RHash [(RStr ''family'', RInt 0), (RStr ''node'', RStr ''10.0.0.1''),
                  (RStr ''service'', RStr ''5900'')],
           RHash [(RStr ''family'', RInt 0), (RStr ''node'', RStr ''10.0.0.2''),
                  (RStr ''service'', RStr ''41000'')],
           RStr ''sasl'',
           RArray [RArray [RStr ''saslUsername'', RStr ''bob''],
                   RArray [RStr ''x509dname'', RStr ''CN=bob'']],
           Qnil]],
        regs = [], next_id = 0\<rparr>)"
  by (simp add: deliver_def domain_event_graphics_callback_def unpack_def invoke_def
      rb_funcall_def emit_def connect_new_def domain_new_def address_hash_def upt_rec
      rb_ary_store_def Let_def)

text \<open>
  C7. When the handler reference found at delivery is of an unsupported kind (its
  class is neither Symbol nor Proc), the adapter raises a type error for that delivery:
  no handler is called and the world, with libvirt's callback table and every other
  registration in it, is left as it was.
\<close>

theorem unsupported_handler_is_rejected:
  assumes "\<not> is_symbol_or_proc cb" and "internalcb_of (event_id ev) = Some a"
  shows "\<exists>msg. deliver h conn d ev a (RArray [cb, opaque]) w = Some (Inl (TypeError msg), w)"
  using assms(2) unfolding internalcb_of_event
  by (cases ev)
    (auto simp: deliver_def domain_event_lifecycle_callback_def domain_event_reboot_callback_def
      domain_event_rtc_callback_def domain_event_watchdog_callback_def
      domain_event_io_error_callback_def domain_event_io_error_reason_callback_def
      domain_event_graphics_callback_def unpack_pair invoke_other [OF assms(1)] Let_def)

theorem unsupported_handler_is_rejected_witness:
  "\<not> is_symbol_or_proc (RStr ''on_watchdog'')
   \<and> internalcb_of (event_id (Ev_watchdog 2)) = Some Cb_watchdog
   \<and> deliver (\<lambda>r m a. None) 1 7 (Ev_watchdog 2) Cb_watchdog
        (RArray [RStr ''on_watchdog'', RStr ''x'']) \<lparr>trace = [], regs = [], next_id = 0\<rparr>
      = Some (Inl (TypeError ''wrong domain event watchdog callback (expected Symbol or Proc)''),
              \<lparr>trace = [], regs = [], next_id = 0\<rparr>)"
proof -
  have n: "\<not> is_symbol_or_proc (RStr ''on_watchdog'')" by (simp add: is_symbol_or_proc_def)
  have a: "internalcb_of (event_id (Ev_watchdog 2)) = Some Cb_watchdog"
    using internalcb_of_event [of "Ev_watchdog 2"] by simp
  from unsupported_handler_is_rejected [OF n a, of "\<lambda>r m a. None" 1 7 "RStr ''x''"
      "\<lparr>trace = [], regs = [], next_id = 0\<rparr>"]
  obtain msg where m: "deliver (\<lambda>r m a. None) 1 7 (Ev_watchdog 2) Cb_watchdog
        (RArray [RStr ''on_watchdog'', RStr ''x'']) \<lparr>trace = [], regs = [], next_id = 0\<rparr>
      = Some (Inl (TypeError msg), \<lparr>trace = [], regs = [], next_id = 0\<rparr>)"
    by blast
  then have "msg = ''wrong domain event watchdog callback (expected Symbol or Proc)''"
    by (simp add: deliver_def domain_event_watchdog_callback_def unpack_def invoke_def)
  with m n a show ?thesis by simp
qed

text \<open>
  C10, as amended. For every registration request whose event-kind discriminant is
  outside the seven known kinds (it converts to none of the seven ids), registration
  raises an exception before any call into libvirt is made, so no registration is
  created and no handle is returned: the world is unchanged. The exception is that of
  the first statement that fails, in the order of the code: the type error ``wrong
  argument type (expected Symbol or Proc)'' when the handler is neither a Symbol nor a
  Proc; else the exception of \<^verbatim>\<open>domain_get\<close> when the domain argument is not nil and
  is no usable Domain; else the exception of \<^verbatim>\<open>NUM2INT\<close> when the discriminant does
  not convert to a C \<^verbatim>\<open>int\<close>; else the argument error ``invalid eventID argument''
  followed by the discriminant in decimal.
\<close>

theorem unknown_event_kind_rejected:
  assumes "NUM2INT eventID \<notin> Inr ` {VIR_DOMAIN_EVENT_ID_LIFECYCLE, VIR_DOMAIN_EVENT_ID_REBOOT,
             VIR_DOMAIN_EVENT_ID_RTC_CHANGE, VIR_DOMAIN_EVENT_ID_WATCHDOG,
             VIR_DOMAIN_EVENT_ID_IO_ERROR, VIR_DOMAIN_EVENT_ID_IO_ERROR_REASON,
             VIR_DOMAIN_EVENT_ID_GRAPHICS}"
  shows "(\<not> is_symbol_or_proc cb \<longrightarrow>
            libvirt_conn_domain_event_register_any domain_get eventID cb dom_val opaque w =
              (Inl (TypeError ''wrong argument type (expected Symbol or Proc)''), w))
         \<and> (is_symbol_or_proc cb \<and> dom_val \<noteq> Qnil \<and> domain_get dom_val = Inl e \<longrightarrow>
            libvirt_conn_domain_event_register_any domain_get eventID cb dom_val opaque w =
              (Inl e, w))
         \<and> (is_symbol_or_proc cb \<and> (dom_val = Qnil \<or> domain_get dom_val = Inr p) \<and>
            NUM2INT eventID = Inl e \<longrightarrow>
            libvirt_conn_domain_event_register_any domain_get eventID cb dom_val opaque w =
              (Inl e, w))
         \<and> (is_symbol_or_proc cb \<and> (dom_val = Qnil \<or> domain_get dom_val = Inr p) \<and>
            NUM2INT eventID = Inr n \<longrightarrow>
            libvirt_conn_domain_event_register_any domain_get eventID cb dom_val opaque w =
              (Inl (ArgError (''invalid eventID argument '' @ format_d n)), w))"
proof -
  have "NUM2INT eventID = Inr n \<Longrightarrow> internalcb_of n = None"
    using assms by (auto simp: internalcb_of_def)
  then show ?thesis
    by (auto simp: libvirt_conn_domain_event_register_any_def)
qed

theorem unknown_event_kind_rejected_witness:
  "NUM2INT (RInt 99) = Inr 99
   \<and> NUM2INT (RInt 4294967299) = Inl (RubyExc ''RangeError'')
   \<and> is_symbol_or_proc (RSym ''on_event'')
   \<and> libvirt_conn_domain_event_register_any (\<lambda>v. Inl (RubyExc ''TypeError'')) (RInt 99)
        (RSym ''on_event'') Qnil Qnil \<lparr>trace = [], regs = [], next_id = 0\<rparr>
      = (Inl (ArgError ''invalid eventID argument 99''), \<lparr>trace = [], regs = [], next_id = 0\<rparr>)
   \<and> libvirt_conn_domain_event_register_any (\<lambda>v. Inl (RubyExc ''TypeError'')) (RInt 99)
        (RStr ''on_event'') Qnil Qnil \<lparr>trace = [], regs = [], next_id = 0\<rparr>
      = (Inl (TypeError ''wrong argument type (expected Symbol or Proc)''),
         \<lparr>trace = [], regs = [], next_id = 0\<rparr>)
   \<and> libvirt_conn_domain_event_register_any (\<lambda>v. Inl (RubyExc ''TypeError'')) (RInt 99)
        (RSym ''on_event'') (RStr ''dom'') Qnil \<lparr>trace = [], regs = [], next_id = 0\<rparr>
      = (Inl (RubyExc ''TypeError''), \<lparr>trace = [], regs = [], next_id = 0\<rparr>)
   \<and> libvirt_conn_domain_event_register_any (\<lambda>v. Inl (RubyExc ''TypeError''))
        (RInt 4294967299) (RSym ''on_event'') Qnil Qnil \<lparr>trace = [], regs = [], next_id = 0\<rparr>
      = (Inl (RubyExc ''RangeError''), \<lparr>trace = [], regs = [], next_id = 0\<rparr>)"
proof -
  let ?w0 = "\<lparr>trace = [], regs = [], next_id = 0\<rparr>"
  let ?dg = "\<lambda>v::rvalue. (Inl (RubyExc ''TypeError'') :: exc + nat)"
  let ?ids = "{VIR_DOMAIN_EVENT_ID_LIFECYCLE, VIR_DOMAIN_EVENT_ID_REBOOT,
             VIR_DOMAIN_EVENT_ID_RTC_CHANGE, VIR_DOMAIN_EVENT_ID_WATCHDOG,
             VIR_DOMAIN_EVENT_ID_IO_ERROR, VIR_DOMAIN_EVENT_ID_IO_ERROR_REASON,
             VIR_DOMAIN_EVENT_ID_GRAPHICS}"
  have h1: "NUM2INT (RInt 99) \<notin> Inr ` ?ids"
    by (auto simp: VIR_DOMAIN_EVENT_ID_LIFECYCLE_def
      VIR_DOMAIN_EVENT_ID_REBOOT_def VIR_DOMAIN_EVENT_ID_RTC_CHANGE_def
      VIR_DOMAIN_EVENT_ID_WATCHDOG_def VIR_DOMAIN_EVENT_ID_IO_ERROR_def
      VIR_DOMAIN_EVENT_ID_GRAPHICS_def VIR_DOMAIN_EVENT_ID_IO_ERROR_REASON_def)
  have h2: "NUM2INT (RInt 4294967299) \<notin> Inr ` ?ids"
    by auto
  have s: "is_symbol_or_proc (RSym ''on_event'')" "\<not> is_symbol_or_proc (RStr ''on_event'')"
    by (simp_all add: is_symbol_or_proc_def)
  have f: "format_d 99 = ''99''"
    by (simp add: format_d_def)
  note a = unknown_event_kind_rejected [OF h1, of "RSym ''on_event''" ?dg Qnil Qnil ?w0 _ _ 99]
  note b = unknown_event_kind_rejected [OF h1, of "RStr ''on_event''" ?dg Qnil Qnil ?w0]
  note c = unknown_event_kind_rejected [OF h1, of "RSym ''on_event''" ?dg "RStr ''dom''" Qnil ?w0
      "RubyExc ''TypeError''"]
  note d = unknown_event_kind_rejected [OF h2, of "RSym ''on_event''" ?dg Qnil Qnil ?w0
      "RubyExc ''RangeError''"]
  from a b c d s f show ?thesis by simp
qed

text \<open>
  The claim as first stated promises the argument error for every request with an
  unknown discriminant. With the discriminant 99 and a String as handler the function
  raises the type error of the handler test instead, and with the discriminant
  4294967299, which fits no C \<^verbatim>\<open>int\<close>, it raises Ruby's RangeError.
\<close>

theorem unknown_event_kind_counterexample:
  "NUM2INT (RInt 99) = Inr 99
   \<and> 99 \<notin> {VIR_DOMAIN_EVENT_ID_LIFECYCLE, VIR_DOMAIN_EVENT_ID_REBOOT,
          VIR_DOMAIN_EVENT_ID_RTC_CHANGE, VIR_DOMAIN_EVENT_ID_WATCHDOG,
          VIR_DOMAIN_EVENT_ID_IO_ERROR, VIR_DOMAIN_EVENT_ID_IO_ERROR_REASON,
          VIR_DOMAIN_EVENT_ID_GRAPHICS}
   \<and> libvirt_conn_domain_event_register_any (\<lambda>v. Inl (RubyExc ''TypeError'')) (RInt 99)
        (RStr ''on_event'') Qnil Qnil \<lparr>trace = [], regs = [], next_id = 0\<rparr>
      = (Inl (TypeError ''wrong argument type (expected Symbol or Proc)''),
         \<lparr>trace = [], regs = [], next_id = 0\<rparr>)
   \<and> NUM2INT (RInt 4294967299) = Inl (RubyExc ''RangeError'')
   \<and> libvirt_conn_domain_event_register_any (\<lambda>v. Inl (RubyExc ''TypeError''))
        (RInt 4294967299) (RSym ''on_event'') Qnil Qnil \<lparr>trace = [], regs = [], next_id = 0\<rparr>
      = (Inl (RubyExc ''RangeError''), \<lparr>trace = [], regs = [], next_id = 0\<rparr>)"
  by (simp add: libvirt_conn_domain_event_register_any_def is_symbol_or_proc_def
      VIR_DOMAIN_EVENT_ID_LIFECYCLE_def
      VIR_DOMAIN_EVENT_ID_REBOOT_def VIR_DOMAIN_EVENT_ID_RTC_CHANGE_def
      VIR_DOMAIN_EVENT_ID_WATCHDOG_def VIR_DOMAIN_EVENT_ID_IO_ERROR_def
      VIR_DOMAIN_EVENT_ID_GRAPHICS_def VIR_DOMAIN_EVENT_ID_IO_ERROR_REASON_def)

text \<open>
  C8. When a registration id has been deregistered (the first call returned nil), a
  second deregistration of the same id raises the error of
  \<^verbatim>\<open>virConnectDomainEventDeregisterAny\<close> and leaves the callback table unchanged.
\<close>

theorem second_deregister_fails:
  assumes "libvirt_conn_domain_event_deregister_any rid w = (Inr Qnil, w')"
  shows "\<exists>w''. libvirt_conn_domain_event_deregister_any rid w' =
           (Inl (LibvirtError ''virConnectDomainEventDeregisterAny''), w'') \<and> regs w'' = regs w'"
proof -
  from assms have "regs w' = filter (\<lambda>(k, r). k \<noteq> rid) (regs w)"
    by (auto simp: libvirt_conn_domain_event_deregister_any_def
        virConnectDomainEventDeregisterAny_def Let_def call_def split: if_splits)
  then have "rid \<notin> fst ` set (regs w')" by auto
  then show ?thesis
    by (simp add: libvirt_conn_domain_event_deregister_any_def
        virConnectDomainEventDeregisterAny_def Let_def call_def)
qed

theorem second_deregister_fails_witness:
  "libvirt_conn_domain_event_deregister_any 0
     \<lparr>trace = [],
      regs = [(0, \<lparr>reg_event = 3, reg_cb = Cb_watchdog,
                    reg_opaque = RArray [RSym ''on_watchdog'', RStr ''x''], reg_dom = None\<rparr>)],
      next_id = 1\<rparr>
   = (Inr Qnil,
      \<lparr>trace = [Call ''virConnectDomainEventDeregisterAny'' None], regs = [], next_id = 1\<rparr>)
   \<and> fst (libvirt_conn_domain_event_deregister_any 0
        \<lparr>trace = [Call ''virConnectDomainEventDeregisterAny'' None], regs = [], next_id = 1\<rparr>)
      = Inl (LibvirtError ''virConnectDomainEventDeregisterAny'')"
proof -
  let ?w1 = "\<lparr>trace = [],
      regs = [(0, \<lparr>reg_event = 3, reg_cb = Cb_watchdog,
                    reg_opaque = RArray [RSym ''on_watchdog'', RStr ''x''], reg_dom = None\<rparr>)],
      next_id = 1\<rparr>"
  let ?w2 = "\<lparr>trace = [Call ''virConnectDomainEventDeregisterAny'' None], regs = [],
              next_id = 1\<rparr>"
  have f: "libvirt_conn_domain_event_deregister_any 0 ?w1 = (Inr Qnil, ?w2)"
    by (simp add: libvirt_conn_domain_event_deregister_any_def
        virConnectDomainEventDeregisterAny_def call_def)
  from second_deregister_fails [OF f] f show ?thesis by auto
qed

section \<open>Properties of the typed-parameter codec\<close>

lemma encode_payload_ok:
  "p \<noteq> P_String None \<Longrightarrow>
   \<exists>u. encode_payload p = Inr u \<and> member_tag u = kind_tag (kind_of p) \<and> u \<noteq> U_s None
       \<and> (case u of U_i x \<Rightarrow> P_Int32 x | U_ui x \<Rightarrow> P_UInt32 x | U_l x \<Rightarrow> P_Int64 x
           | U_ul x \<Rightarrow> P_UInt64 x | U_d x \<Rightarrow> P_Double x | U_b x \<Rightarrow> P_Boolean (x \<noteq> 0)
           | U_s x \<Rightarrow> P_String x) = p"
  by (cases p rule: encode_payload.cases) auto

lemma kind_tag_range: "VIR_TYPED_PARAM_INT \<le> kind_tag k \<and> kind_tag k \<le> VIR_TYPED_PARAM_STRING"
  by (cases k)
    (simp_all add: VIR_TYPED_PARAM_INT_def VIR_TYPED_PARAM_UINT_def VIR_TYPED_PARAM_LLONG_def
      VIR_TYPED_PARAM_ULLONG_def VIR_TYPED_PARAM_DOUBLE_def VIR_TYPED_PARAM_BOOLEAN_def
      VIR_TYPED_PARAM_STRING_def)

lemma encode_entry_roundtrip:
  assumes "length (tv_name tv) \<le> VIR_TYPED_PARAM_FIELD_LENGTH" and "tv_payload tv \<noteq> P_String None"
  shows "\<exists>r. encode_entry tv = Inr r \<and> decode_entry r = Inr tv \<and> raw_ok r"
proof -
  from encode_payload_ok [OF assms(2)] obtain u where u:
    "encode_payload (tv_payload tv) = Inr u" "member_tag u = kind_tag (kind_of (tv_payload tv))"
    "u \<noteq> U_s None"
    "(case u of U_i x \<Rightarrow> P_Int32 x | U_ui x \<Rightarrow> P_UInt32 x | U_l x \<Rightarrow> P_Int64 x
           | U_ul x \<Rightarrow> P_UInt64 x | U_d x \<Rightarrow> P_Double x | U_b x \<Rightarrow> P_Boolean (x \<noteq> 0)
           | U_s x \<Rightarrow> P_String x) = tv_payload tv"
    by blast
  let ?r = "\<lparr>raw_field = tv_name tv, raw_type = kind_tag (kind_of (tv_payload tv)),
             raw_union = u\<rparr>"
  have e: "encode_entry tv = Inr ?r" using assms(1) u(1) by (simp add: encode_entry_def)
  have d: "decode_entry ?r = Inr tv"
    using u(2,4) kind_tag_range [of "kind_of (tv_payload tv)"]
    by (simp add: decode_entry_def)
  have k: "raw_ok ?r" using u(2,3) by (simp add: raw_ok_def)
  from e d k show ?thesis by blast
qed

lemma encode_entry_ok:
  assumes "encode_entry tv = Inr r"
  shows "tv_ok tv \<and> raw_ok r"
proof -
  from assms have p: "tv_payload tv \<noteq> P_String None"
    by (auto simp: encode_entry_def split: if_splits sum.splits)
  from assms have n: "length (tv_name tv) \<le> VIR_TYPED_PARAM_FIELD_LENGTH"
    by (auto simp: encode_entry_def split: if_splits)
  from encode_entry_roundtrip [OF n p] assms p show ?thesis by (auto simp: tv_ok_def)
qed

lemma decode_entry_ok:
  assumes "decode_entry r = Inr tv" and "raw_ok r"
  shows "tv_ok tv"
  using assms
  by (cases "raw_union r") (auto simp: decode_entry_def raw_ok_def tv_ok_def split: if_splits)

lemma decode_all_ok:
  "decode_all rs = Inr P \<Longrightarrow> \<forall>r \<in> set rs. raw_ok r \<Longrightarrow> \<forall>tv \<in> set P. tv_ok tv"
proof (induction rs arbitrary: P)
  case Nil
  then show ?case by simp
next
  case (Cons r rs)
  from Cons.prems(1) obtain tv tvs where
    tv: "decode_entry r = Inr tv" and tvs: "decode_all rs = Inr tvs" and P: "P = tv # tvs"
    by (auto split: sum.splits)
  from decode_entry_ok [OF tv] Cons.prems(2) have "tv_ok tv" by simp
  moreover from Cons.IH [OF tvs] Cons.prems(2) have "\<forall>x \<in> set tvs. tv_ok x" by simp
  ultimately show ?case using P by simp
qed

lemma encode_ok:
  "encode P = Inr rs \<Longrightarrow> (\<forall>tv \<in> set P. tv_ok tv) \<and> (\<forall>r \<in> set rs. raw_ok r)"
proof (induction P arbitrary: rs)
  case Nil
  then show ?case by simp
next
  case (Cons tv tvs)
  from Cons.prems obtain r rs' where
    r: "encode_entry tv = Inr r" and rs': "encode tvs = Inr rs'" and rs: "rs = r # rs'"
    by (auto split: sum.splits)
  from encode_entry_ok [OF r] Cons.IH [OF rs'] rs show ?case by simp
qed

lemma encode_roundtrip:
  "\<forall>tv \<in> set P. length (tv_name tv) \<le> VIR_TYPED_PARAM_FIELD_LENGTH \<and> tv_payload tv \<noteq> P_String None
   \<Longrightarrow> \<exists>rs. encode P = Inr rs \<and> decode_all rs = Inr P \<and> length rs = length P"
proof (induction P)
  case Nil
  then show ?case by simp
next
  case (Cons tv tvs)
  then obtain rs where rs: "encode tvs = Inr rs" "decode_all rs = Inr tvs" "length rs = length tvs"
    by auto
  from Cons.prems encode_entry_roundtrip [of tv] obtain r where
    r: "encode_entry tv = Inr r" "decode_entry r = Inr tv"
    by auto
  from r rs show ?case by simp
qed

text \<open>
  C3. For every ParameterSet in which no name exceeds the capacity of the name field and
  no String entry holds a null payload, encode succeeds and decoding its result gives
  the ParameterSet back exactly.
\<close>

theorem decode_encode_roundtrip:
  assumes "\<forall>tv \<in> set P. length (tv_name tv) \<le> VIR_TYPED_PARAM_FIELD_LENGTH
                          \<and> tv_payload tv \<noteq> P_String None"
  shows "\<exists>rawArray. encode P = Inr rawArray \<and> decode rawArray (length rawArray) = Inr P"
  using encode_roundtrip [OF assms] by (auto simp: decode_def)

theorem decode_encode_roundtrip_witness:
  "length ''cpu_shares'' \<le> VIR_TYPED_PARAM_FIELD_LENGTH
   \<and> length ''emulator_pin'' \<le> VIR_TYPED_PARAM_FIELD_LENGTH
   \<and> length ''enabled'' \<le> VIR_TYPED_PARAM_FIELD_LENGTH
   \<and> P_String (Some ''0-3'') \<noteq> P_String None
   \<and> encode [\<lparr>tv_name = ''cpu_shares'', tv_payload = P_UInt32 1024\<rparr>,
              \<lparr>tv_name = ''emulator_pin'', tv_payload = P_String (Some ''0-3'')\<rparr>,
              \<lparr>tv_name = ''enabled'', tv_payload = P_Boolean True\<rparr>]
      = Inr [\<lparr>raw_field = ''cpu_shares'', raw_type = 2, raw_union = U_ui 1024\<rparr>,
             \<lparr>raw_field = ''emulator_pin'', raw_type = 7, raw_union = U_s (Some ''0-3'')\<rparr>,
             \<lparr>raw_field = ''enabled'', raw_type = 6, raw_union = U_b 1\<rparr>]
   \<and> decode [\<lparr>raw_field = ''cpu_shares'', raw_type = 2, raw_union = U_ui 1024\<rparr>,
              \<lparr>raw_field = ''emulator_pin'', raw_type = 7, raw_union = U_s (Some ''0-3'')\<rparr>,
              \<lparr>raw_field = ''enabled'', raw_type = 6, raw_union = U_b 1\<rparr>] 3
      = Inr [\<lparr>tv_name = ''cpu_shares'', tv_payload = P_UInt32 1024\<rparr>,
             \<lparr>tv_name = ''emulator_pin'', tv_payload = P_String (Some ''0-3'')\<rparr>,
             \<lparr>tv_name = ''enabled'', tv_payload = P_Boolean True\<rparr>]"
proof -
  let ?P = "[\<lparr>tv_name = ''cpu_shares'', tv_payload = P_UInt32 1024\<rparr>,
             \<lparr>tv_name = ''emulator_pin'', tv_payload = P_String (Some ''0-3'')\<rparr>,
             \<lparr>tv_name = ''enabled'', tv_payload = P_Boolean True\<rparr>]"
  have h: "\<forall>tv \<in> set ?P.
      length (tv_name tv) \<le> VIR_TYPED_PARAM_FIELD_LENGTH \<and> tv_payload tv \<noteq> P_String None"
    by (simp add: VIR_TYPED_PARAM_FIELD_LENGTH_def)
  have e: "encode ?P
      = Inr [\<lparr>raw_field = ''cpu_shares'', raw_type = 2, raw_union = U_ui 1024\<rparr>,
             \<lparr>raw_field = ''emulator_pin'', raw_type = 7, raw_union = U_s (Some ''0-3'')\<rparr>,
             \<lparr>raw_field = ''enabled'', raw_type = 6, raw_union = U_b 1\<rparr>]"
    by (simp add: encode_entry_def VIR_TYPED_PARAM_FIELD_LENGTH_def VIR_TYPED_PARAM_UINT_def
        VIR_TYPED_PARAM_STRING_def VIR_TYPED_PARAM_BOOLEAN_def)
  from decode_encode_roundtrip [OF h] obtain rawArray where
    r: "encode ?P = Inr rawArray" and d: "decode rawArray (length rawArray) = Inr ?P"
    by blast
  from r e have "rawArray = [\<lparr>raw_field = ''cpu_shares'', raw_type = 2, raw_union = U_ui 1024\<rparr>,
             \<lparr>raw_field = ''emulator_pin'', raw_type = 7, raw_union = U_s (Some ''0-3'')\<rparr>,
             \<lparr>raw_field = ''enabled'', raw_type = 6, raw_union = U_b 1\<rparr>]"
    by simp
  with d have "decode [\<lparr>raw_field = ''cpu_shares'', raw_type = 2, raw_union = U_ui 1024\<rparr>,
             \<lparr>raw_field = ''emulator_pin'', raw_type = 7, raw_union = U_s (Some ''0-3'')\<rparr>,
             \<lparr>raw_field = ''enabled'', raw_type = 6, raw_union = U_b 1\<rparr>] 3 = Inr ?P"
    by (simp add: numeral_3_eq_3)
  with e show ?thesis by (simp add: VIR_TYPED_PARAM_FIELD_LENGTH_def)
qed

text \<open>
  C9. The invariant of typed values is preserved across decode and encode. Decoding
  raw records that satisfy the invariant of the declaration (the union holds the member
  its tag names, and a STRING member is not \<^verbatim>\<open>NULL\<close>) yields typed values whose
  payload variant is their kind, none a String without a string. Whenever encode
  succeeds, every typed value it consumed satisfies the invariant and so does every raw
  record it produced.
\<close>

theorem codec_preserves_invariant:
  "(decode rawArray n = Inr P \<and> (\<forall>r \<in> set (take n rawArray). raw_ok r)
      \<longrightarrow> (\<forall>tv \<in> set P. tv_ok tv))
   \<and> (encode P = Inr rawArray
      \<longrightarrow> (\<forall>tv \<in> set P. tv_ok tv) \<and> (\<forall>r \<in> set rawArray. raw_ok r))"
  using decode_all_ok [of "take n rawArray" P] encode_ok [of P rawArray]
  by (auto simp: decode_def)

theorem codec_preserves_invariant_witness:
  "decode [\<lparr>raw_field = ''cpu_shares'', raw_type = 2, raw_union = U_ui 1024\<rparr>,
           \<lparr>raw_field = ''emulator_pin'', raw_type = 7, raw_union = U_s (Some ''0-3'')\<rparr>] 2
     = Inr [\<lparr>tv_name = ''cpu_shares'', tv_payload = P_UInt32 1024\<rparr>,
            \<lparr>tv_name = ''emulator_pin'', tv_payload = P_String (Some ''0-3'')\<rparr>]
   \<and> raw_ok \<lparr>raw_field = ''cpu_shares'', raw_type = 2, raw_union = U_ui 1024\<rparr>
   \<and> raw_ok \<lparr>raw_field = ''emulator_pin'', raw_type = 7, raw_union = U_s (Some ''0-3'')\<rparr>
   \<and> encode [\<lparr>tv_name = ''cpu_shares'', tv_payload = P_UInt32 1024\<rparr>,
              \<lparr>tv_name = ''emulator_pin'', tv_payload = P_String (Some ''0-3'')\<rparr>]
     = Inr [\<lparr>raw_field = ''cpu_shares'', raw_type = 2, raw_union = U_ui 1024\<rparr>,
            \<lparr>raw_field = ''emulator_pin'', raw_type = 7, raw_union = U_s (Some ''0-3'')\<rparr>]
   \<and> tv_ok \<lparr>tv_name = ''cpu_shares'', tv_payload = P_UInt32 1024\<rparr>
   \<and> tv_ok \<lparr>tv_name = ''emulator_pin'', tv_payload = P_String (Some ''0-3'')\<rparr>"
proof -
  let ?R = "[\<lparr>raw_field = ''cpu_shares'', raw_type = 2, raw_union = U_ui 1024\<rparr>,
           \<lparr>raw_field = ''emulator_pin'', raw_type = 7, raw_union = U_s (Some ''0-3'')\<rparr>]"
  let ?P = "[\<lparr>tv_name = ''cpu_shares'', tv_payload = P_UInt32 1024\<rparr>,
             \<lparr>tv_name = ''emulator_pin'', tv_payload = P_String (Some ''0-3'')\<rparr>]"
  have d: "decode ?R 2 = Inr ?P"
    by (simp add: decode_def decode_entry_def VIR_TYPED_PARAM_INT_def VIR_TYPED_PARAM_UINT_def
        VIR_TYPED_PARAM_STRING_def)
  have k: "\<forall>r \<in> set (take 2 ?R). raw_ok r"
    by (simp add: raw_ok_def VIR_TYPED_PARAM_UINT_def VIR_TYPED_PARAM_STRING_def)
  have e: "encode ?P = Inr ?R"
    by (simp add: encode_entry_def VIR_TYPED_PARAM_FIELD_LENGTH_def VIR_TYPED_PARAM_UINT_def
        VIR_TYPED_PARAM_STRING_def)
  from codec_preserves_invariant [of ?R 2 ?P] d k e have "\<forall>tv \<in> set ?P. tv_ok tv"
    by blast
  with d k e show ?thesis by simp
qed

text \<open>
  The scenarios of section 8: a name of 90 bytes, a record of kind 99, and a String
  entry without a string.
\<close>

lemma codec_scenarios:
  "encode [\<lparr>tv_name = replicate 90 (CHR ''n''), tv_payload = P_Int32 1\<rparr>] = Inl NameTooLongError"
  "decode [\<lparr>raw_field = ''weight'', raw_type = 99, raw_union = U_i 1\<rparr>] 1 = Inl DecodeError"
  "encode [\<lparr>tv_name = ''path'', tv_payload = P_String None\<rparr>] = Inl InvalidValueError"
  by (simp_all add: encode_entry_def decode_def decode_entry_def VIR_TYPED_PARAM_FIELD_LENGTH_def
      VIR_TYPED_PARAM_INT_def VIR_TYPED_PARAM_STRING_def)

end
